theory Spec2Isabelle
  imports Main "HOL-Library.Sublist" "HOL-Library.List_Lexorder" "HOL-Library.Product_Lexorder"
begin

section \<open>Text values\<close>

text \<open>
  A Python \<open>str\<close> is a sequence of Unicode code points: \<open>len\<close> counts code points,
  \<open>in\<close> looks for a contiguous run of them and \<open>==\<close>, \<open><\<close> compare them one by one.
  The product names, the taxonomy and the rule table of this program are Hebrew text, so
  a string is modelled as the list of its code points. A spreadsheet cell of a text
  column is either empty (\<open>None\<close>) or holds a string (\<open>Some s\<close>); this is the type the
  source gives a product name (\<open>name: str\<close>, with the empty case tested by \<open>if name\<close>).
\<close>

type_synonym ustr = "nat list"

text \<open>Truth value of a cell: \<open>None\<close> and the empty string are false.\<close>

definition truthy :: "ustr option \<Rightarrow> bool" where
  "truthy v = (case v of None \<Rightarrow> False | Some s \<Rightarrow> s \<noteq> [])"

text \<open>\<open>x or y\<close> on cells, and \<open>(x or "")\<close>, which is always a string.\<close>

definition or_else :: "ustr option \<Rightarrow> ustr option \<Rightarrow> ustr option" where
  "or_else x y = (if truthy x then x else y)"

definition or_empty :: "ustr option \<Rightarrow> ustr" where
  "or_empty x = (case x of None \<Rightarrow> [] | Some s \<Rightarrow> s)"

text \<open>\<open>sub in s\<close>: does \<open>sub\<close> occur in \<open>s\<close> as a contiguous run.\<close>

fun starts_with :: "'a list \<Rightarrow> 'a list \<Rightarrow> bool" where
  "starts_with [] s = True"
| "starts_with (c # cs) [] = False"
| "starts_with (c # cs) (d # ds) = (c = d \<and> starts_with cs ds)"

fun contains :: "'a list \<Rightarrow> 'a list \<Rightarrow> bool" where
  "contains sub [] = (sub = [])"
| "contains sub (d # ds) = (starts_with sub (d # ds) \<or> contains sub ds)"

text \<open>
  The code points for which \<open>str.isspace\<close> holds; \<open>str.strip()\<close> and \<open>str.split()\<close>
  without argument use exactly these.
\<close>

definition is_space :: "nat \<Rightarrow> bool" where
  "is_space c \<longleftrightarrow>
     (9 \<le> c \<and> c \<le> 13) \<or> (28 \<le> c \<and> c \<le> 32) \<or> c = 133 \<or> c = 160 \<or> c = 5760 \<or>
     (8192 \<le> c \<and> c \<le> 8202) \<or> c = 8232 \<or> c = 8233 \<or> c = 8239 \<or> c = 8287 \<or> c = 12288"

definition strip :: "ustr \<Rightarrow> ustr" where
  "strip s = rev (dropWhile is_space (rev (dropWhile is_space s)))"

text \<open>
  \<open>s.split()\<close>: the maximal runs of non-space code points, in order. \<open>cur\<close> is the
  token being read.
\<close>

fun split_from :: "ustr \<Rightarrow> ustr \<Rightarrow> ustr list" where
  "split_from cur [] = (if cur = [] then [] else [cur])"
| "split_from cur (c # cs) =
     (if is_space c then (if cur = [] then split_from [] cs else cur # split_from [] cs)
      else split_from (cur @ [c]) cs)"

definition split_ws :: "ustr \<Rightarrow> ustr list" where
  "split_ws s = split_from [] s"

text \<open>
  \<open>str.lower()\<close> is a table of the Unicode standard, not code of this program, so every
  function that calls it takes it as the parameter \<open>lower\<close> and the theorems hold for
  every such function. \<open>ascii_lower\<close> is the instance used on concrete inputs: it agrees
  with \<open>str.lower()\<close> on text made of ASCII and Hebrew, Hebrew having no letter case.
\<close>

definition ascii_lower :: "ustr \<Rightarrow> ustr" where
  "ascii_lower s = map (\<lambda>c. if 65 \<le> c \<and> c \<le> 90 then c + 32 else c) s"

section \<open>Data model\<close>

text \<open>
  One taxonomy row, as \<open>load_taxonomy\<close> builds it. The identifiers are never read by
  the classification; their type is left open.
\<close>

record 'i taxonomy_entry =
  domain_id :: 'i
  domain_name :: "ustr option"
  dept_id :: 'i
  dept_name :: "ustr option"
  grp_id :: 'i
  grp_name :: "ustr option"
  sub_id :: 'i
  sub_name :: "ustr option"

text \<open>
  One product row: the eight columns unpacked by \<open>classify_products\<close>. The columns
  \<open>item_id\<close>, \<open>supplier_id\<close> and \<open>supplier_name\<close> are only copied, so their
  type is left open.
\<close>

record 'c product =
  item_id :: 'c
  item_name :: "ustr option"
  domain :: "ustr option"
  dept :: "ustr option"
  group :: "ustr option"
  subgroup :: "ustr option"
  supplier_id :: 'c
  supplier_name :: 'c

text \<open>
  The six status strings written by \<open>classify_products\<close> (the keys of
  \<open>STATUS_LABELS\<close>): \<open>"auto_full"\<close>, \<open>"auto_subgroup"\<close>, \<open>"new_category"\<close>,
  \<open>"partial_auto"\<close>, \<open>"unknown"\<close>, \<open>"skipped"\<close>.
\<close>

datatype status = AutoFull | AutoSubgroup | NewCategory | PartialAuto | Unknown | Skipped

text \<open>A result is the dictionary appended to \<open>results\<close>: the product's keys and \<open>status\<close>.\<close>

record 'c result = "'c product" +
  status :: status

text \<open>A rule of \<open>RULES\<close>: keywords and the category (domain, dept, group, subgroup).\<close>

type_synonym category = "ustr \<times> ustr \<times> ustr \<times> ustr"
type_synonym rule = "ustr list \<times> category"

text \<open>
  The \<open>stats\<close> dictionary. Its keys are fixed by the literal that creates it and every
  later access names one of them, so it is a record of five counters.
\<close>

record stats =
  auto_full :: nat
  auto_subgroup :: nat
  new_category :: nat
  skipped :: nat
  unknown :: nat

section \<open>The rule table\<close>

text \<open>
  \<open>RULES\<close>, in the order of the source. The groups are: Purim and holidays; Judaica;
  fresh herbs; nuts and seeds; fresh fish; meat; textiles; household; dry food;
  beverages; garden.
\<close>

definition RULES :: "rule list" where
  "RULES = [
  ([[1502, 1490, 1497, 1500, 1514, 32, 1488, 1505, 1514, 1512],
      [1502, 1490, 1497, 1500, 1493, 1514, 32, 1488, 1505, 1514, 1512]],
     ([78, 70],
      [1495, 1490, 1497, 1501],
      [1508, 1493, 1512, 1497, 1501],
      [1502, 1490, 1497, 1500, 1493, 1514, 32, 1488, 1505, 1514, 1512])),
  ([[1514, 1495, 1508, 1493, 1513, 1514],
      [1502, 1505, 1499, 1492]],
     ([78, 70],
      [1495, 1490, 1497, 1501],
      [1508, 1493, 1512, 1497, 1501],
      [1514, 1495, 1508, 1493, 1513, 1493, 1514, 32, 1493, 1488, 1489, 1497, 1494, 1512, 1497, 1501])),
  ([[1502, 1513, 1500, 1493, 1495, 32, 1502, 1504, 1493, 1514],
      [1513, 1511, 1497, 1514, 32, 1508, 1493, 1512, 1497, 1501],
      [1511, 1493, 1508, 1505, 1514, 32, 1508, 1493, 1512, 1497, 1501]],
     ([78, 70],
      [1495, 1490, 1497, 1501],
      [1508, 1493, 1512, 1497, 1501],
      [1488, 1489, 1497, 1494, 1512, 1497, 1501, 32, 1500, 1502, 1513, 1500, 1493, 1495, 1497, 32, 1502, 1504, 1493, 1514])),
  ([[1508, 1493, 1512, 1497, 1501]],
     ([78, 70],
      [1495, 1490, 1497, 1501],
      [1508, 1493, 1512, 1497, 1501],
      [1488, 1489, 1497, 1494, 1512, 1497, 1501, 32, 1500, 1502, 1513, 1500, 1493, 1495, 1497, 32, 1502, 1504, 1493, 1514])),
  ([[1505, 1489, 1497, 1489, 1493, 1503],
      [1495, 1504, 1493, 1499, 1497, 1492],
      [1495, 1504, 1493, 1499, 1492]],
     ([78, 70],
      [1495, 1490, 1497, 1501],
      [1495, 1504, 1493, 1499, 1492],
      [1505, 1489, 1497, 1489, 1493, 1504, 1497, 1501])),
  ([[1513, 1511, 1497, 1514, 32, 1495, 1490],
      [1513, 1511, 1497, 1493, 1514, 32, 1495, 1490]],
     ([78, 70],
      [1495, 1490, 1497, 1501],
      [1495, 1490, 1497, 1501, 32, 1499, 1500, 1500, 1497],
      [1513, 1511, 1497, 1493, 1514, 32, 1495, 1490])),
  ([[1502, 1491, 1489, 1511, 1493, 1514, 32, 1500, 1508, 1505, 1495],
      [1508, 1505, 1495]],
     ([78, 70],
      [1495, 1490, 1497, 1501],
      [1495, 1490, 1497, 1501, 32, 1499, 1500, 1500, 1497],
      [1513, 1511, 1497, 1493, 1514, 32, 1495, 1490])),
  ([[1510, 1497, 1510, 1497, 1514],
      [1496, 1500, 1497, 1514],
      [1508, 1514, 1497, 1500],
      [1508, 1514, 1497, 1500, 1497, 1501]],
     ([78, 70],
      [1497, 1493, 1491, 1488, 1497, 1511, 1492, 32, 42, 1495, 1491, 1513, 42],
      [1510, 1497, 1510, 1497, 1514, 32, 1493, 1496, 1500, 1497, 1514, 32, 42, 1495, 1491, 1513, 42],
      [1508, 1514, 1497, 1500, 1497, 1501, 32, 1493, 1510, 1497, 1510, 1497, 1514, 32, 42, 1495, 1491, 1513, 42])),
  ([[1502, 1494, 1493, 1494, 1492],
      [1514, 1508, 1497, 1500, 1497, 1503],
      [1513, 1493, 1508, 1512]],
     ([78, 70],
      [1497, 1493, 1491, 1488, 1497, 1511, 1492, 32, 42, 1495, 1491, 1513, 42],
      [1497, 1493, 1491, 1488, 1497, 1511, 1492, 32, 42, 1495, 1491, 1513, 42],
      [1497, 1493, 1491, 1488, 1497, 1511, 1492, 32, 42, 1495, 1491, 1513, 42])),
  ([[1495, 1494, 1512, 1514]],
     ([1508, 1497, 1512, 1493, 1514, 32, 1493, 1497, 1512, 1511, 1493, 1514],
      [1497, 1512, 1511, 1493, 1514],
      [1513, 1493, 1512, 1513, 1497, 1497, 1501],
      [1513, 1493, 1512, 1513])),
  ([[1500, 1493, 1507]],
     ([1508, 1497, 1512, 1493, 1514, 32, 1493, 1497, 1512, 1511, 1493, 1514],
      [1497, 1512, 1511, 1493, 1514],
      [1497, 1512, 1511, 1493, 1514, 32, 1500, 1489, 1497, 1513, 1493, 1500],
      [1497, 1512, 1511, 1493, 1514, 32, 1500, 1489, 1497, 1513, 1493, 1500, 32, 42, 1495, 1491, 1513, 42])),
  ([[1504, 1506, 1504, 1506],
      [1499, 1493, 1505, 1489, 1512, 1492],
      [1508, 1496, 1512, 1493, 1494, 1497, 1500, 1497, 1492],
      [1513, 1502, 1497, 1512],
      [1506, 1513, 1489]],
     ([1508, 1497, 1512, 1493, 1514, 32, 1493, 1497, 1512, 1511, 1493, 1514],
      [1497, 1512, 1511, 1493, 1514],
      [1497, 1512, 1511, 1493, 1514, 32, 1506, 1500, 1497, 1501],
      [1508, 1496, 1512, 1493, 1494, 1497, 1500, 1497, 1492, 32, 1499, 1493, 1505, 1489, 1512, 1492, 32, 1504, 1506, 1504, 1506, 32, 1513, 1502, 1497, 1512])),
  ([[1489, 1493, 1496, 1503],
      [1489, 1493, 1496, 1504, 1497, 1501]],
     ([1508, 1497, 1512, 1493, 1514, 32, 1493, 1497, 1512, 1511, 1493, 1514],
      [1508, 1497, 1510, 1493, 1495, 1497, 1501],
      [1489, 1493, 1496, 1504, 1497, 1501, 32, 42, 1495, 1491, 1513, 42],
      [1489, 1493, 1496, 1504, 1497, 1501, 32, 42, 1495, 1491, 1513, 42])),
  ([[1513, 1511, 1491],
      [1513, 1511, 1491, 1497, 1501]],
     ([1508, 1497, 1512, 1493, 1514, 32, 1493, 1497, 1512, 1511, 1493, 1514],
      [1508, 1497, 1510, 1493, 1495, 1497, 1501],
      [1513, 1511, 1491, 1497, 1501, 32, 42, 1495, 1491, 1513, 42],
      [1513, 1511, 1491, 1497, 1501, 32, 42, 1495, 1491, 1513, 42])),
  ([[1508, 1497, 1505, 1496, 1493, 1511]],
     ([1508, 1497, 1512, 1493, 1514, 32, 1493, 1497, 1512, 1511, 1493, 1514],
      [1508, 1497, 1510, 1493, 1495, 1497, 1501],
      [1508, 1497, 1505, 1496, 1493, 1511, 32, 42, 1495, 1491, 1513, 42],
      [1508, 1497, 1505, 1496, 1493, 1511, 32, 42, 1495, 1491, 1513, 42])),
  ([[1511, 1513, 1497, 1493]],
     ([1508, 1497, 1512, 1493, 1514, 32, 1493, 1497, 1512, 1511, 1493, 1514],
      [1508, 1497, 1510, 1493, 1495, 1497, 1501],
      [1511, 1513, 1497, 1493, 32, 42, 1495, 1491, 1513, 42],
      [1511, 1513, 1497, 1493, 32, 42, 1495, 1491, 1513, 42])),
  ([[1508, 1511, 1488, 1503]],
     ([1508, 1497, 1512, 1493, 1514, 32, 1493, 1497, 1512, 1511, 1493, 1514],
      [1508, 1497, 1510, 1493, 1495, 1497, 1501],
      [1508, 1511, 1488, 1503, 32, 1493, 1502, 1511, 1491, 1502, 1497, 1492, 32, 42, 1495, 1491, 1513, 42],
      [1508, 1511, 1488, 1503, 32, 42, 1495, 1491, 1513, 42])),
  ([[1502, 1511, 1491, 1502, 1497, 1492]],
     ([1508, 1497, 1512, 1493, 1514, 32, 1493, 1497, 1512, 1511, 1493, 1514],
      [1508, 1497, 1510, 1493, 1495, 1497, 1501],
      [1508, 1511, 1488, 1503, 32, 1493, 1502, 1511, 1491, 1502, 1497, 1492, 32, 42, 1495, 1491, 1513, 42],
      [1502, 1511, 1491, 1502, 1497, 1492, 32, 42, 1495, 1491, 1513, 42])),
  ([[1489, 1493, 1504, 1491, 1493, 1511],
      [1488, 1490, 1493, 1494, 32, 1489, 1512, 1494, 1497, 1500],
      [1488, 1490, 1493, 1494]],
     ([1508, 1497, 1512, 1493, 1514, 32, 1493, 1497, 1512, 1511, 1493, 1514],
      [1508, 1497, 1510, 1493, 1495, 1497, 1501],
      [1488, 1490, 1493, 1494, 1497, 1501, 32, 42, 1495, 1491, 1513, 42],
      [1488, 1490, 1493, 1494, 1497, 1501, 32, 42, 1495, 1491, 1513, 42])),
  ([[1490, 1512, 1506, 1497, 1504, 1497, 32, 1495, 1502, 1504, 1497, 1492],
      [1490, 1512, 1506, 1497, 1504, 1497, 32, 1488, 1489, 1496, 1497, 1495],
      [1490, 1512, 1506, 1497, 1504, 1497, 32, 1491, 1500, 1506, 1514],
      [1490, 1512, 1506, 1497, 1504, 1497, 1501]],
     ([1508, 1497, 1512, 1493, 1514, 32, 1493, 1497, 1512, 1511, 1493, 1514],
      [1508, 1497, 1510, 1493, 1495, 1497, 1501],
      [1490, 1512, 1506, 1497, 1504, 1497, 1501, 32, 42, 1495, 1491, 1513, 42],
      [1490, 1512, 1506, 1497, 1504, 1497, 1501, 32, 42, 1495, 1491, 1513, 42])),
  ([[1490, 1512, 1506, 1497, 1504, 1497, 1501, 32, 1491, 1500, 1506, 1514],
      [1490, 1512, 1506, 1497, 1504, 1497, 32, 1488, 1489, 1496, 1497, 1495, 32, 1494, 1512, 1497, 1508, 1492]],
     ([1508, 1497, 1512, 1493, 1514, 32, 1493, 1497, 1512, 1511, 1493, 1514],
      [1508, 1497, 1510, 1493, 1495, 1497, 1501],
      [1490, 1512, 1506, 1497, 1504, 1497, 1501, 32, 42, 1495, 1491, 1513, 42],
      [1490, 1512, 1506, 1497, 1504, 1497, 1501, 32, 42, 1495, 1491, 1513, 42])),
  ([[1495, 1493, 1502, 1493, 1505, 32, 1511, 1500, 1493, 1497]],
     ([1508, 1497, 1512, 1493, 1514, 32, 1493, 1497, 1512, 1511, 1493, 1514],
      [1508, 1497, 1510, 1493, 1495, 1497, 1501],
      [1495, 1493, 1502, 1493, 1505, 32, 1493, 1491, 1490, 1504, 1497, 1501, 32, 1511, 1500, 1493, 1497, 1497, 1501, 32, 42, 1495, 1491, 1513, 42],
      [1495, 1493, 1502, 1493, 1505, 32, 1511, 1500, 1493, 1497, 32, 42, 1495, 1491, 1513, 42])),
  ([[1514, 1497, 1512, 1505, 32, 1502, 1496, 1493, 1490, 1503],
      [1514, 1497, 1512, 1505]],
     ([1508, 1497, 1512, 1493, 1514, 32, 1493, 1497, 1512, 1511, 1493, 1514],
      [1508, 1497, 1510, 1493, 1495, 1497, 1501],
      [1495, 1496, 1497, 1508, 1497, 32, 1508, 1497, 1510, 1493, 1495, 1497, 1501, 32, 42, 1495, 1491, 1513, 42],
      [1495, 1496, 1497, 1508, 1497, 32, 1514, 1497, 1512, 1505, 32, 42, 1495, 1491, 1513, 42])),
  ([[1511, 1489, 1493, 1511, 1497, 1501],
      [1511, 1512, 1504, 1510, 1493, 1505],
      [1512, 1489, 1497, 1493, 1500, 1497, 32, 1490, 1512, 1497, 1500]],
     ([1508, 1497, 1512, 1493, 1514, 32, 1493, 1497, 1512, 1511, 1493, 1514],
      [1508, 1497, 1510, 1493, 1495, 1497, 1501],
      [1495, 1496, 1497, 1508, 1497, 32, 1508, 1497, 1510, 1493, 1495, 1497, 1501, 32, 42, 1495, 1491, 1513, 42],
      [1495, 1496, 1497, 1508, 1497, 32, 1508, 1497, 1510, 1493, 1495, 1497, 1501, 32, 42, 1495, 1491, 1513, 42])),
  ([[1502, 1506, 1493, 1512, 1489],
      [1502, 1488, 1512, 1494, 32, 1508, 1497, 1510, 1493, 1495, 1497, 1501]],
     ([1508, 1497, 1512, 1493, 1514, 32, 1493, 1497, 1512, 1511, 1493, 1514],
      [1508, 1497, 1510, 1493, 1495, 1497, 1501],
      [1514, 1506, 1512, 1493, 1489, 1493, 1514, 32, 1508, 1497, 1510, 1493, 1495, 1497, 1501, 32, 42, 1495, 1491, 1513, 42],
      [1514, 1506, 1512, 1493, 1489, 1493, 1514, 32, 1508, 1497, 1510, 1493, 1495, 1497, 1501, 32, 42, 1495, 1491, 1513, 42])),
  ([[1502, 1502, 1514, 1511, 32, 1508, 1512, 1497]],
     ([1508, 1497, 1512, 1493, 1514, 32, 1493, 1497, 1512, 1511, 1493, 1514],
      [1508, 1497, 1510, 1493, 1495, 1497, 1501],
      [1502, 1502, 1514, 1511, 1497, 32, 1508, 1497, 1510, 1493, 1495, 1497, 1501, 32, 42, 1495, 1491, 1513, 42],
      [1502, 1502, 1514, 1511, 1497, 32, 1508, 1497, 1510, 1493, 1495, 1497, 1501, 32, 42, 1495, 1491, 1513, 42])),
  ([[1491, 1490, 32, 1496, 1512, 1497],
      [1508, 1497, 1500, 1492],
      [1491, 1504, 1497, 1505],
      [1500, 1489, 1512, 1511],
      [1488, 1502, 1504, 1493, 1503],
      [1511, 1512, 1508, 1497, 1493, 1503],
      [1505, 1500, 1502, 1493, 1503],
      [1496, 1493, 1504, 1492, 32, 1496, 1512, 1497],
      [1488, 1497, 1504, 1496, 1497, 1488, 1505],
      [1489, 1512, 1497],
      [1508, 1512, 1497, 1491, 1492],
      [1499, 1493, 1511, 1497, 1492],
      [1502, 1493, 1505, 1512],
      [1489, 1511, 1500, 1492],
      [1508, 1490, 1512, 1497, 1492]],
     ([1502, 1510, 1493, 1504, 1504, 1497, 1501],
      [1491, 1490, 1497, 1501, 32, 1496, 1512, 1497, 1497, 1501],
      [1491, 1490, 1497, 1501, 32, 1496, 1512, 1497, 1497, 1501],
      [1491, 1490, 1497, 1501, 32, 1513, 1500, 1502, 1497, 1501, 32, 1496, 1512, 1497, 1497, 1501, 32, 42, 1495, 1491, 1513, 42])),
  ([[1491, 1490, 32, 1488, 1512, 1493, 1494],
      [1508, 1497, 1500, 1492, 32, 1488, 1512, 1493, 1494],
      [1491, 1490, 32, 1502, 1504, 1493, 1511, 1492]],
     ([1502, 1510, 1493, 1504, 1504, 1497, 1501],
      [1491, 1490, 1497, 1501, 32, 1496, 1512, 1497, 1497, 1501],
      [1491, 1490, 1497, 1501, 32, 1496, 1512, 1497, 1497, 1501, 32, 1488, 1512, 1493, 1494, 1497, 1501],
      [1491, 1490, 1497, 1501, 32, 1488, 1512, 1493, 1494, 1497, 1501, 32, 42, 1495, 1491, 1513, 42])),
  ([[1488, 1504, 1496, 1512, 1497, 1511, 1493, 1496],
      [1505, 1497, 1504, 1496, 1492],
      [1508, 1497, 1500, 1492, 32, 1489, 1511, 1512],
      [1488, 1505, 1488, 1491, 1493],
      [1513, 1508, 1493, 1504, 1491, 1512, 1492],
      [1510, 1500, 1506, 1493, 1514, 32, 1489, 1511, 1512],
      [1499, 1514, 1507, 32, 1489, 1511, 1512],
      [1513, 1497, 1497, 1496, 1500],
      [1500, 1513, 1493, 1503]],
     ([1502, 1510, 1493, 1504, 1504, 1497, 1501],
      [1511, 1510, 1489, 1497, 1492, 32, 1489, 1511, 1512, 32, 1496, 1512, 1497],
      [1495, 1500, 1511, 1497, 32, 1489, 1513, 1512, 32, 1496, 1512, 1497],
      [1504, 1514, 1495, 1497, 32, 1489, 1511, 1512, 32, 42, 1495, 1491, 1513, 42])),
  ([[1489, 1513, 1512, 32, 1496, 1495, 1493, 1503],
      [1511, 1510, 1497, 1510, 1493, 1514]],
     ([1502, 1510, 1493, 1504, 1504, 1497, 1501],
      [1511, 1510, 1489, 1497, 1492, 32, 1489, 1511, 1512, 32, 1496, 1512, 1497],
      [1489, 1513, 1512, 32, 1496, 1512, 1497, 32, 1496, 1495, 1493, 1503],
      [1489, 1513, 1512, 32, 1496, 1495, 1493, 1503, 32, 42, 1495, 1491, 1513, 42])),
  ([[1489, 1513, 1512, 32, 1488, 1512, 1493, 1494]],
     ([1502, 1510, 1493, 1504, 1504, 1497, 1501],
      [1511, 1510, 1489, 1497, 1492, 32, 1489, 1511, 1512, 32, 1496, 1512, 1497],
      [1489, 1513, 1512, 32, 1496, 1512, 1497, 32, 1488, 1512, 1493, 1494],
      [1489, 1513, 1512, 32, 1488, 1512, 1493, 1494, 32, 42, 1495, 1491, 1513, 42])),
  ([[1506, 1493, 1507, 32, 1513, 1500, 1501],
      [1508, 1512, 1490, 1497, 1514, 32, 1513, 1500, 1502, 1492]],
     ([1502, 1510, 1493, 1504, 1504, 1497, 1501],
      [1511, 1510, 1489, 1497, 1492, 32, 1506, 1493, 1508, 1493, 1514, 32, 1496, 1512, 1497, 1497, 1501],
      [1506, 1493, 1507, 32, 1496, 1512, 1497, 32, 1513, 1500, 1501],
      [1506, 1493, 1507, 32, 1513, 1500, 1501, 32, 42, 1495, 1491, 1513, 42])),
  ([[1495, 1494, 1492, 32, 1506, 1493, 1507],
      [1513, 1493, 1511, 32, 1506, 1493, 1507],
      [1499, 1504, 1507, 32, 1506, 1493, 1507],
      [1497, 1512, 1498, 32, 1506, 1493, 1507],
      [1495, 1500, 1511, 1497, 32, 1506, 1493, 1507]],
     ([1502, 1510, 1493, 1504, 1504, 1497, 1501],
      [1511, 1510, 1489, 1497, 1492, 32, 1506, 1493, 1508, 1493, 1514, 32, 1496, 1512, 1497, 1497, 1501],
      [1495, 1500, 1511, 1497, 32, 1506, 1493, 1507, 32, 1496, 1512, 1497],
      [1495, 1500, 1511, 1497, 32, 1506, 1493, 1507, 32, 42, 1495, 1491, 1513, 42])),
  ([[1492, 1493, 1491, 1493],
      [1508, 1512, 1490, 1497, 1514, 32, 1492, 1493, 1491, 1493],
      [1495, 1494, 1492, 32, 1492, 1493, 1491, 1493],
      [1513, 1493, 1511, 32, 1492, 1493, 1491, 1493]],
     ([1502, 1510, 1493, 1504, 1504, 1497, 1501],
      [1511, 1510, 1489, 1497, 1492, 32, 1506, 1493, 1508, 1493, 1514, 32, 1496, 1512, 1497, 1497, 1501],
      [1492, 1493, 1491, 1493, 32, 1496, 1512, 1497],
      [1495, 1500, 1511, 1497, 32, 1492, 1493, 1491, 1493, 32, 42, 1495, 1491, 1513, 42])),
  ([[1506, 1493, 1507, 32, 1496, 1495, 1493, 1503],
      [1492, 1493, 1491, 1493, 32, 1496, 1495, 1493, 1503]],
     ([1502, 1510, 1493, 1504, 1504, 1497, 1501],
      [1511, 1510, 1489, 1497, 1492, 32, 1506, 1493, 1508, 1493, 1514, 32, 1496, 1512, 1497, 1497, 1501],
      [1506, 1493, 1507, 32, 1493, 1492, 1493, 1491, 1493, 32, 1496, 1495, 1493, 1503],
      [1506, 1493, 1507, 32, 1496, 1495, 1493, 1503, 32, 42, 1495, 1491, 1513, 42])),
  ([[1502, 1510, 1506, 1497, 1501],
      [1505, 1491, 1497, 1503],
      [1510, 1497, 1508, 1497, 1514]],
     ([78, 70],
      [1496, 1511, 1505, 1496, 1497, 1500],
      [1499, 1500, 1497, 32, 1502, 1497, 1496, 1492],
      [1502, 1510, 1506, 1497, 1501])),
  ([[1513, 1502, 1497, 1499, 1492],
      [1513, 1502, 1497, 1499, 1493, 1514]],
     ([78, 70],
      [1496, 1511, 1505, 1496, 1497, 1500],
      [1499, 1500, 1497, 32, 1502, 1497, 1496, 1492],
      [1513, 1502, 1497, 1499, 1493, 1514, 32, 1511, 1497, 1509])),
  ([[1499, 1512, 1497, 1514],
      [1499, 1512, 1497, 1493, 1514]],
     ([78, 70],
      [1496, 1511, 1505, 1496, 1497, 1500],
      [1499, 1500, 1497, 32, 1502, 1497, 1496, 1492],
      [1499, 1512, 1497, 1493, 1514])),
  ([[1502, 1490, 1489, 1514],
      [1502, 1490, 1489, 1493, 1514]],
     ([78, 70],
      [1496, 1511, 1505, 1496, 1497, 1500],
      [1502, 1490, 1489, 1493, 1514],
      [1502, 1490, 1489, 1493, 1514, 32, 1490, 1493, 1507])),
  ([[1502, 1508, 1492],
      [1502, 1508, 1493, 1514]],
     ([78, 70],
      [1496, 1511, 1505, 1496, 1497, 1500],
      [1496, 1511, 1505, 1496, 1497, 1500, 32, 1500, 1489, 1497, 1514],
      [1502, 1508, 1493, 1514])),
  ([[1513, 1496, 1497, 1495]],
     ([78, 70],
      [1496, 1511, 1505, 1496, 1497, 1500],
      [1496, 1511, 1505, 1496, 1497, 1500, 32, 1500, 1489, 1497, 1514],
      [1513, 1496, 1497, 1495, 1497, 1501])),
  ([[1490, 1512, 1489],
      [1490, 1512, 1489, 1497, 1497, 1501]],
     ([78, 70],
      [1496, 1511, 1505, 1496, 1497, 1500],
      [1489, 1497, 1490, 1493, 1491],
      [1490, 1512, 1489, 1497, 32, 1490, 1489, 1512, 1497, 1501])),
  ([[1510, 1506, 1497, 1507]],
     ([78, 70],
      [1496, 1511, 1505, 1496, 1497, 1500],
      [1488, 1489, 1497, 1494, 1512, 1497, 32, 1495, 1493, 1512, 1507],
      [1510, 1506, 1497, 1508, 1497, 1501])),
  ([[1499, 1508, 1508, 1493, 1514]],
     ([78, 70],
      [1496, 1511, 1505, 1496, 1497, 1500],
      [1488, 1489, 1497, 1494, 1512, 1497, 32, 1495, 1493, 1512, 1507],
      [1499, 1508, 1508, 1493, 1514])),
  ([[1502, 1496, 1512, 1497, 1492]],
     ([78, 70],
      [1496, 1511, 1505, 1496, 1497, 1500],
      [1488, 1489, 1497, 1494, 1512, 1497, 32, 1495, 1493, 1512, 1507],
      [1502, 1496, 1512, 1497, 1493, 1514])),
  ([[1499, 1489, 1500],
      [1514, 1511, 1506],
      [1513, 1511, 1506]],
     ([78, 70],
      [1502, 1493, 1510, 1512, 1497, 32, 1495, 1513, 1502, 1500],
      [1488, 1489, 1497, 1494, 1512, 1497, 32, 1495, 1513, 1502, 1500, 32, 1493, 1514, 1488, 1493, 1512, 1492],
      [1514, 1511, 1506, 1497, 1501, 32, 1493, 1499, 1489, 1500, 1497, 1501])),
  ([[1504, 1493, 1512, 1492],
      [1490, 1493, 1507, 32, 1514, 1488, 1493, 1512, 1492]],
     ([78, 70],
      [1502, 1493, 1510, 1512, 1497, 32, 1495, 1513, 1502, 1500],
      [1488, 1489, 1497, 1494, 1512, 1497, 32, 1495, 1513, 1502, 1500, 32, 1493, 1514, 1488, 1493, 1512, 1492],
      [1504, 1493, 1512, 1493, 1514, 32, 1493, 1490, 1493, 1508, 1497, 32, 1514, 1488, 1493, 1512, 1492])),
  ([[1505, 1493, 1500, 1500, 1492],
      [1505, 1493, 1500, 1500, 1493, 1514]],
     ([78, 70],
      [1502, 1493, 1510, 1512, 1497, 32, 1495, 1513, 1502, 1500],
      [1488, 1500, 1511, 1496, 1512, 1493, 1504, 1497, 1511, 1492],
      [1505, 1493, 1500, 1500, 1493, 1514])),
  ([[1488, 1493, 1494, 1504, 1497, 1493, 1514]],
     ([78, 70],
      [1502, 1493, 1510, 1512, 1497, 32, 1495, 1513, 1502, 1500],
      [1488, 1500, 1511, 1496, 1512, 1493, 1504, 1497, 1511, 1492],
      [1488, 1493, 1494, 1504, 1497, 1493, 1514])),
  ([[1502, 1496, 1506, 1503],
      [1499, 1489, 1500, 32, 1496, 1506, 1497, 1504, 1492]],
     ([78, 70],
      [1502, 1493, 1510, 1512, 1497, 32, 1495, 1513, 1502, 1500],
      [1488, 1500, 1511, 1496, 1512, 1493, 1504, 1497, 1511, 1492],
      [1502, 1496, 1506, 1504, 1497, 1501, 32, 1493, 1499, 1489, 1500, 1497, 1501])),
  ([[1502, 1489, 1512, 1513, 1514, 32, 1513, 1497, 1504, 1497, 1497, 1501],
      [1495, 1493, 1496, 32, 1491, 1504, 1496, 1500, 1497],
      [1502, 1490, 1512, 1491, 32, 1500, 1513, 1493, 1503],
      [1511, 1497, 1505, 1501]],
     ([1508, 1488, 1512, 1501],
      [1492, 1497, 1490, 1497, 1497, 1504, 1514, 32, 1492, 1508, 1492],
      [1502, 1489, 1512, 1513, 1493, 1514, 32, 1513, 1497, 1504, 1497, 1497, 1501],
      [1502, 1489, 1512, 1513, 1493, 1514, 32, 1513, 1497, 1504, 1497, 1497, 1501, 32, 42, 1495, 1491, 1513, 42])),
  ([[1508, 1495],
      [1508, 1495, 1497, 1501]],
     ([78, 70],
      [1499, 1500, 1497, 32, 1489, 1497, 1514],
      [1502, 1493, 1510, 1512, 1497, 1501, 32, 1500, 1489, 1497, 1514],
      [1508, 1495, 1497, 1501])),
  ([[1502, 1506, 1510, 1493, 1512, 32, 1491, 1500, 1514]],
     ([78, 70],
      [1499, 1500, 1497, 32, 1489, 1497, 1514],
      [1502, 1493, 1510, 1512, 1497, 1501, 32, 1500, 1489, 1497, 1514],
      [1502, 1493, 1510, 1512, 1497, 1501, 32, 1500, 1489, 1497, 1514, 32, 42, 1495, 1491, 1513, 42])),
  ([[1508, 1512, 1500, 1496, 1493, 1512],
      [1489, 1512, 1494],
      [1510, 1497, 1504, 1493, 1512]],
     ([78, 70],
      [1499, 1500, 1497, 32, 1489, 1497, 1514],
      [1502, 1493, 1510, 1512, 1497, 1501, 32, 1500, 1488, 1502, 1489, 1496, 1497, 1492],
      [1489, 1512, 1494, 1497, 1501, 32, 1493, 1495, 1505, 1499, 1502, 1497, 1501])),
  ([[1489, 1500, 1493, 1503]],
     ([78, 70],
      [1508, 1504, 1488, 1497],
      [1488, 1489, 1497, 1494, 1512, 1497, 32, 1502, 1505, 1497, 1489, 1492],
      [1489, 1500, 1493, 1504, 1497, 1501])),
  ([[1508, 1504, 1511, 1505],
      [1502, 1495, 1489, 1512, 1514]],
     ([78, 70],
      [1508, 1504, 1488, 1497],
      [1510, 1497, 1493, 1491, 32, 1502, 1513, 1512, 1491, 1497],
      [1502, 1495, 1489, 1512, 1493, 1514, 32, 1489, 1500, 1493, 1511, 1497, 1501, 32, 1493, 1502, 1506, 1496, 1508, 1493, 1514])),
  ([[1502, 1491, 1489, 1511, 1493, 1514]],
     ([78, 70],
      [1508, 1504, 1488, 1497],
      [1497, 1510, 1497, 1512, 1492],
      [1502, 1491, 1489, 1511, 1493, 1514])),
  ([[1510, 1504, 1510, 1504, 1514],
      [1511, 1493, 1510, 1509, 32, 1510, 1497, 1508, 1493, 1512, 1504, 1497, 1497, 1501]],
     ([78, 70],
      [1499, 1500, 1497, 32, 1489, 1497, 1514],
      [1499, 1500, 1497, 32, 1488, 1495, 1505, 1493, 1503],
      [1502, 1493, 1510, 1512, 1497, 32, 1488, 1495, 1505, 1493, 1503, 32, 1508, 1500, 1505, 1496, 1497, 1511])),
  ([[1489, 1510, 1500, 32, 1502, 1496, 1493, 1490, 1503],
      [1489, 1510, 1500, 32, 1508, 1512, 1497, 1498]],
     ([1502, 1494, 1493, 1503, 32, 1497, 1489, 1513],
      [1502, 1493, 1510, 1512, 1497, 1501, 32, 1500, 1489, 1497, 1513, 1493, 1500, 32, 1493, 1488, 1508, 1497, 1492],
      [1514, 1489, 1500, 1497, 1504, 1497, 1501],
      [1514, 1489, 1500, 1497, 1504, 1497, 1501, 32, 1489, 1513, 1511, 1497, 1514])),
  ([[1502, 1497, 1509],
      [1504, 1511, 1496, 1512]],
     ([1502, 1513, 1511, 1488, 1493, 1514],
      [1502, 1513, 1511, 1488, 1493, 1514, 32, 1511, 1500, 1497, 1501],
      [1504, 1511, 1496, 1512, 1497, 1501, 32, 1493, 1502, 1497, 1510, 1497, 1501],
      [1502, 1497, 1510, 1497, 1501, 32, 42, 1495, 1491, 1513, 42])),
  ([[1500, 1493, 1493, 1504, 1491, 1512],
      [1510, 1502, 1495],
      [1506, 1510, 1497, 1509],
      [1508, 1512, 1495]],
     ([78, 70],
      [1490, 1497, 1504, 1492, 32, 42, 1495, 1491, 1513, 42],
      [1510, 1502, 1495, 1497, 1501, 32, 42, 1495, 1491, 1513, 42],
      [1510, 1502, 1495, 1497, 1501, 32, 1493, 1494, 1512, 1506, 1497, 1501, 32, 42, 1495, 1491, 1513, 42]))]"

text \<open>The constant strings of \<open>classify_products\<close>.\<close>

definition SKIP_SENTINEL :: ustr where
  \<comment> \<open>the placeholder name of an item that does not exist yet ("new item")\<close>
  "SKIP_SENTINEL = [1508, 1512, 1497, 1496, 32, 1495, 1491, 1513]"

definition SKIP_SUBGROUP :: ustr where
  \<comment> \<open>the subgroup written on a skipped row ("item does not exist - skip")\<close>
  "SKIP_SUBGROUP = [1508, 1512, 1497, 1496, 32, 1500, 1488, 32, 1511, 1497, 1497, 1501, 32, 45,
     32, 1500, 1491, 1497, 1500, 1493, 1490]"

definition NEW_MARKER :: ustr where
  \<comment> \<open>the marker of a category to create: the word "new" between asterisks\<close>
  "NEW_MARKER = [42, 1495, 1491, 1513, 42]"

definition REVIEW_SUFFIX :: ustr where
  \<comment> \<open>a space and "for review" between asterisks\<close>
  "REVIEW_SUFFIX = [32, 42, 1500, 1489, 1491, 1497, 1511, 1492, 42]"

definition UNKNOWN_DOMAIN :: ustr where
  \<comment> \<open>"not known"\<close>
  "UNKNOWN_DOMAIN = [1500, 1488, 32, 1497, 1491, 1493, 1506]"

definition NEEDS_REVIEW :: ustr where
  \<comment> \<open>"for review"\<close>
  "NEEDS_REVIEW = [1500, 1489, 1491, 1497, 1511, 1492]"

definition MANUAL_REVIEW :: ustr where
  \<comment> \<open>"for manual review"\<close>
  "MANUAL_REVIEW = [1500, 1489, 1491, 1497, 1511, 1492, 32, 1497, 1491, 1504, 1497, 1514]"

section \<open>Lookup tables\<close>

text \<open>
  \<open>build_lookup\<close>: two tables with lower-cased, trimmed keys, each a
  \<open>defaultdict(list)\<close>, here a function from the key to the list stored under it (the
  empty list for a key never stored). \<open>classify_products\<close> and \<open>main\<close> do not call it.
\<close>

definition build_lookup ::
  "(ustr \<Rightarrow> ustr) \<Rightarrow> 'i taxonomy_entry list
     \<Rightarrow> (ustr \<times> ustr \<Rightarrow> 'i taxonomy_entry list) \<times> (ustr \<Rightarrow> 'i taxonomy_entry list)" where
  "build_lookup lower taxonomy =
     foldl (\<lambda>(by_dept_group, by_dept) t.
        let d = strip (or_empty (dept_name t));
            g = strip (or_empty (grp_name t));
            sb = strip (or_empty (sub_name t))
        in ((if d \<noteq> [] \<and> g \<noteq> [] \<and> sb \<noteq> []
             then by_dept_group((lower d, lower g) := by_dept_group (lower d, lower g) @ [t])
             else by_dept_group),
            (if d \<noteq> [] then by_dept(lower d := by_dept (lower d) @ [t]) else by_dept)))
       (\<lambda>k. [], \<lambda>k. []) taxonomy"

section \<open>Keyword matcher\<close>

text \<open>
  \<open>match_by_keyword\<close>: the inner loop over the keywords of one rule, the outer loop over
  the rules, and the function itself, which lower-cases a non-empty name and scans
  \<open>RULES\<close>.
\<close>

fun any_keyword :: "(ustr \<Rightarrow> ustr) \<Rightarrow> ustr list \<Rightarrow> ustr \<Rightarrow> bool" where
  "any_keyword lower [] name_lower = False"
| "any_keyword lower (kw # kws) name_lower =
     (if contains (lower kw) name_lower then True else any_keyword lower kws name_lower)"

fun match_rules :: "(ustr \<Rightarrow> ustr) \<Rightarrow> rule list \<Rightarrow> ustr \<Rightarrow> category option" where
  "match_rules lower [] name_lower = None"
| "match_rules lower ((keywords, category) # rules) name_lower =
     (if any_keyword lower keywords name_lower then Some category
      else match_rules lower rules name_lower)"

definition lowered_name :: "(ustr \<Rightarrow> ustr) \<Rightarrow> ustr option \<Rightarrow> ustr" where
  \<comment> \<open>the local \<open>name_lower = name.lower() if name else ""\<close>\<close>
  "lowered_name lower name =
     (case name of None \<Rightarrow> [] | Some n \<Rightarrow> if n \<noteq> [] then lower n else [])"

definition match_by_keyword :: "(ustr \<Rightarrow> ustr) \<Rightarrow> ustr option \<Rightarrow> category option" where
  "match_by_keyword lower name = match_rules lower RULES (lowered_name lower name)"

text \<open>
  The same function on a name cell of any kind. The reader of the spreadsheet delivers
  an empty cell, a text or a number; \<open>match_by_keyword\<close> above is the function on an
  empty or text cell, the type its annotation \<open>name: str\<close> states. A number other than
  0 is true, so the conditional expression calls its \<open>lower\<close>, which an \<open>int\<close> does
  not have: the call raises \<open>AttributeError\<close>. The number 0 is false and gives the
  empty string, as an empty cell does.
\<close>

datatype cell = EmptyCell | TextCell ustr | NumberCell int

datatype py_error = AttributeError

definition as_cell :: "ustr option \<Rightarrow> cell" where
  "as_cell v = (case v of None \<Rightarrow> EmptyCell | Some s \<Rightarrow> TextCell s)"

definition cell_lowered_name :: "(ustr \<Rightarrow> ustr) \<Rightarrow> cell \<Rightarrow> py_error + ustr" where
  "cell_lowered_name lower name =
     (case name of
        EmptyCell \<Rightarrow> Inr []
      | TextCell n \<Rightarrow> Inr (if n \<noteq> [] then lower n else [])
      | NumberCell k \<Rightarrow> (if k \<noteq> 0 then Inl AttributeError else Inr []))"

definition cell_match_by_keyword ::
  "(ustr \<Rightarrow> ustr) \<Rightarrow> cell \<Rightarrow> py_error + category option" where
  "cell_match_by_keyword lower name =
     (case cell_lowered_name lower name of
        Inl e \<Rightarrow> Inl e
      | Inr name_lower \<Rightarrow> Inr (match_rules lower RULES name_lower))"

section \<open>Subgroup finder\<close>

text \<open>
  \<open>find_subgroup\<close>. The entries that match are those whose trimmed department and
  group names equal the given ones and whose subgroup name is non-empty. The comparison
  is \<open>==\<close> on strings: the given names are neither trimmed nor lower-cased.
\<close>

definition subgroup_matches ::
  "ustr option \<Rightarrow> ustr option \<Rightarrow> 'i taxonomy_entry list \<Rightarrow> 'i taxonomy_entry list" where
  "subgroup_matches d g taxonomy =
     filter (\<lambda>t. Some (strip (or_empty (dept_name t))) = d
               \<and> Some (strip (or_empty (grp_name t))) = g
               \<and> truthy (sub_name t)) taxonomy"

text \<open>The test on one entry: some word of its lower-cased subgroup name, longer than 2, is in the name.\<close>

definition word_in_name :: "(ustr \<Rightarrow> ustr) \<Rightarrow> ustr \<Rightarrow> 'i taxonomy_entry \<Rightarrow> bool" where
  "word_in_name lower name_lower m =
     (let sub_lower = lower (or_empty (sub_name m));
          words = split_ws sub_lower
      in list_ex (\<lambda>w. contains w name_lower) (filter (\<lambda>w. length w > 2) words))"

text \<open>The loop over several matches: the subgroup of the first entry that passes, if any.\<close>

fun first_word_match ::
  "(ustr \<Rightarrow> ustr) \<Rightarrow> ustr \<Rightarrow> 'i taxonomy_entry list \<Rightarrow> ustr option option" where
  "first_word_match lower name_lower [] = None"
| "first_word_match lower name_lower (m # ms) =
     (if word_in_name lower name_lower m then Some (sub_name m)
      else first_word_match lower name_lower ms)"

definition find_subgroup ::
  "(ustr \<Rightarrow> ustr) \<Rightarrow> ustr option \<Rightarrow> ustr option \<Rightarrow> ustr option \<Rightarrow> 'i taxonomy_entry list
     \<Rightarrow> ustr option" where
  "find_subgroup lower d g product_name taxonomy =
     (case subgroup_matches d g taxonomy of
        [] \<Rightarrow> None
      | [m] \<Rightarrow> sub_name m
      | m # ms \<Rightarrow>
          (let name_lower = lower (or_empty product_name)
           in case first_word_match lower name_lower (m # ms) of
                Some found \<Rightarrow> found
              | None \<Rightarrow> sub_name m))"

section \<open>Classification\<close>

text \<open>The three values returned by \<open>classify_products\<close>, as they stand during the loop.\<close>

record 'c state =
  results :: "'c result list"
  stats :: stats
  new_categories :: "category set"

definition init_state :: "'c state" where
  "init_state = \<lparr>results = [],
     stats = \<lparr>auto_full = 0, auto_subgroup = 0, new_category = 0, skipped = 0, unknown = 0\<rparr>,
     new_categories = {}\<rparr>"

text \<open>
  The entries under a department with a non-empty subgroup (case 4 of the loop), and
  the test for the new-category marker in the joined department, group and subgroup.
\<close>

definition dept_matches :: "ustr option \<Rightarrow> 'i taxonomy_entry list \<Rightarrow> 'i taxonomy_entry list" where
  "dept_matches d taxonomy =
     filter (\<lambda>t. Some (strip (or_empty (dept_name t))) = d \<and> truthy (sub_name t)) taxonomy"

definition is_new :: "category \<Rightarrow> bool" where
  "is_new cat = (case cat of (new_domain, new_dept, new_group, new_sub) \<Rightarrow>
     contains NEW_MARKER (new_dept @ [32] @ new_group @ [32] @ new_sub))"

text \<open>The skip test: \<open>item_name and SKIP_SENTINEL in str(item_name)\<close>.\<close>

definition is_placeholder :: "ustr option \<Rightarrow> bool" where
  "is_placeholder name = (case name of None \<Rightarrow> False | Some n \<Rightarrow> n \<noteq> [] \<and> contains SKIP_SENTINEL n)"

text \<open>
  One pass of the loop body on one row. Each branch adds one to a counter and appends
  one dictionary, as the source does before its \<open>continue\<close>. In case 4 the subgroup
  name is non-empty by the filter, so the concatenation is defined.
\<close>

definition classify_row ::
  "(ustr \<Rightarrow> ustr) \<Rightarrow> 'i taxonomy_entry list \<Rightarrow> 'c state \<Rightarrow> 'c product \<Rightarrow> 'c state" where
  "classify_row lower taxonomy s row =
    (if is_placeholder (item_name row) then
       s\<lparr>stats := (stats s)\<lparr>skipped := skipped (stats s) + 1\<rparr>,
         results := results s @
           [\<lparr>item_id = item_id row, item_name = item_name row,
             domain = domain row, dept = dept row, group = group row,
             subgroup = Some SKIP_SUBGROUP,
             supplier_id = supplier_id row, supplier_name = supplier_name row,
             status = Skipped\<rparr>]\<rparr>
     else if truthy (dept row) \<and> truthy (group row)
            \<and> truthy (find_subgroup lower (dept row) (group row) (item_name row) taxonomy) then
       s\<lparr>stats := (stats s)\<lparr>auto_subgroup := auto_subgroup (stats s) + 1\<rparr>,
         results := results s @
           [\<lparr>item_id = item_id row, item_name = item_name row,
             domain = domain row, dept = dept row, group = group row,
             subgroup = find_subgroup lower (dept row) (group row) (item_name row) taxonomy,
             supplier_id = supplier_id row, supplier_name = supplier_name row,
             status = AutoSubgroup\<rparr>]\<rparr>
     else
       (case match_by_keyword lower (item_name row) of
          Some (new_domain, new_dept, new_group, new_sub) \<Rightarrow>
            (if is_new (new_domain, new_dept, new_group, new_sub) then
               s\<lparr>new_categories := insert (new_domain, new_dept, new_group, new_sub) (new_categories s),
                 stats := (stats s)\<lparr>new_category := new_category (stats s) + 1\<rparr>,
                 results := results s @
                   [\<lparr>item_id = item_id row, item_name = item_name row,
                     domain = Some new_domain, dept = Some new_dept,
                     group = Some new_group, subgroup = Some new_sub,
                     supplier_id = supplier_id row, supplier_name = supplier_name row,
                     status = NewCategory\<rparr>]\<rparr>
             else
               s\<lparr>stats := (stats s)\<lparr>auto_full := auto_full (stats s) + 1\<rparr>,
                 results := results s @
                   [\<lparr>item_id = item_id row, item_name = item_name row,
                     domain = Some new_domain, dept = Some new_dept,
                     group = Some new_group, subgroup = Some new_sub,
                     supplier_id = supplier_id row, supplier_name = supplier_name row,
                     status = AutoFull\<rparr>]\<rparr>)
        | None \<Rightarrow>
            (case (if truthy (dept row) \<and> \<not> truthy (group row)
                   then dept_matches (dept row) taxonomy else []) of
               t # _ \<Rightarrow>
                 s\<lparr>stats := (stats s)\<lparr>auto_subgroup := auto_subgroup (stats s) + 1\<rparr>,
                   results := results s @
                     [\<lparr>item_id = item_id row, item_name = item_name row,
                       domain = or_else (domain row) (domain_name t),
                       dept = dept row,
                       group = grp_name t,
                       subgroup = Some (or_empty (sub_name t) @ REVIEW_SUFFIX),
                       supplier_id = supplier_id row, supplier_name = supplier_name row,
                       status = PartialAuto\<rparr>]\<rparr>
             | [] \<Rightarrow>
                 s\<lparr>stats := (stats s)\<lparr>unknown := unknown (stats s) + 1\<rparr>,
                   results := results s @
                     [\<lparr>item_id = item_id row, item_name = item_name row,
                       domain = or_else (domain row) (Some UNKNOWN_DOMAIN),
                       dept = or_else (dept row) (Some NEEDS_REVIEW),
                       group = or_else (group row) (Some NEEDS_REVIEW),
                       subgroup = Some MANUAL_REVIEW,
                       supplier_id = supplier_id row, supplier_name = supplier_name row,
                       status = Unknown\<rparr>]\<rparr>)))"

text \<open>\<open>classify_products\<close>: the loop over the rows, from the empty state.\<close>

definition classify_products ::
  "(ustr \<Rightarrow> ustr) \<Rightarrow> 'i taxonomy_entry list \<Rightarrow> 'c product list \<Rightarrow> 'c state" where
  "classify_products lower taxonomy rows = foldl (classify_row lower taxonomy) init_state rows"

text \<open>\<open>sorted(new_categories)\<close>, the order in which \<open>main\<close> reports the set.\<close>

definition sorted_new_categories :: "category set \<Rightarrow> category list" where
  "sorted_new_categories cats = sorted_list_of_set cats"

section \<open>Derived notions used in the statements\<close>

text \<open>
  The dictionary appended for one row. The loop body appends exactly one dictionary and
  that dictionary does not depend on the state (lemma \<open>classify_row_results\<close> below), so
  it is read off a pass from the empty state.
\<close>

definition row_result :: "(ustr \<Rightarrow> ustr) \<Rightarrow> 'i taxonomy_entry list \<Rightarrow> 'c product \<Rightarrow> 'c result" where
  "row_result lower taxonomy row = last (results (classify_row lower taxonomy init_state row))"

text \<open>The counter that the loop body increments in the branch that writes a given status.\<close>

definition counted :: "status \<Rightarrow> stats \<Rightarrow> stats" where
  "counted st c =
     (case st of
        Skipped \<Rightarrow> c\<lparr>skipped := skipped c + 1\<rparr>
      | AutoSubgroup \<Rightarrow> c\<lparr>auto_subgroup := auto_subgroup c + 1\<rparr>
      | NewCategory \<Rightarrow> c\<lparr>new_category := new_category c + 1\<rparr>
      | AutoFull \<Rightarrow> c\<lparr>auto_full := auto_full c + 1\<rparr>
      | PartialAuto \<Rightarrow> c\<lparr>auto_subgroup := auto_subgroup c + 1\<rparr>
      | Unknown \<Rightarrow> c\<lparr>unknown := unknown c + 1\<rparr>)"

text \<open>The category tuple written in a result (an empty cell read as the empty string).\<close>

definition resolved_tuple :: "'c result \<Rightarrow> category" where
  "resolved_tuple r = (or_empty (domain r), or_empty (dept r), or_empty (group r), or_empty (subgroup r))"

text \<open>
  The subgroup resolver as the specification words it: with several candidates, the
  first one that has a whitespace-delimited token of its subgroup name (as stored),
  longer than 2, inside the lower-cased item name; the first candidate if none has.
\<close>

definition spec_find_subgroup ::
  "(ustr \<Rightarrow> ustr) \<Rightarrow> ustr option \<Rightarrow> ustr option \<Rightarrow> ustr option \<Rightarrow> 'i taxonomy_entry list
     \<Rightarrow> ustr option" where
  "spec_find_subgroup lower d g product_name taxonomy =
     (case subgroup_matches d g taxonomy of
        [] \<Rightarrow> None
      | [c] \<Rightarrow> sub_name c
      | c # cs \<Rightarrow>
          (case find (\<lambda>m. \<exists>w\<in>set (split_ws (or_empty (sub_name m))).
                              2 < length w \<and> contains w (lower (or_empty product_name))) (c # cs) of
             Some m \<Rightarrow> sub_name m
           | None \<Rightarrow> sub_name c))"

section \<open>Example data\<close>

text \<open>Concrete inputs for the instances below; \<open>ascii\<close> writes a string of ASCII characters.\<close>

definition ascii :: "string \<Rightarrow> ustr" where
  "ascii s = map of_char s"

definition PEANUTS :: ustr where
  \<comment> \<open>"peanuts", a name that the rule for peanuts matches; its category is marked new\<close>
  "PEANUTS = [1489, 1493, 1496, 1504, 1497, 1501]"

definition PEANUTS_CATEGORY :: category where
  "PEANUTS_CATEGORY =
     ([1508, 1497, 1512, 1493, 1514, 32, 1493, 1497, 1512, 1511, 1493, 1514],
      [1508, 1497, 1510, 1493, 1495, 1497, 1501],
      [1489, 1493, 1496, 1504, 1497, 1501, 32, 42, 1495, 1491, 1513, 42],
      [1489, 1493, 1496, 1504, 1497, 1501, 32, 42, 1495, 1491, 1513, 42])"

definition ex_taxonomy :: "nat taxonomy_entry list" where
  "ex_taxonomy =
     [\<lparr>domain_id = 1, domain_name = Some (ascii ''Food''),
       dept_id = 10, dept_name = Some (ascii ''Bakery''),
       grp_id = 100, grp_name = Some (ascii '' Bread ''),
       sub_id = 1000, sub_name = Some (ascii ''Loaf'')\<rparr>,
      \<lparr>domain_id = 1, domain_name = Some (ascii ''Food''),
       dept_id = 11, dept_name = Some (ascii ''Produce''),
       grp_id = 110, grp_name = Some (ascii ''Fruit''),
       sub_id = 1100, sub_name = Some (ascii ''Red Apples'')\<rparr>,
      \<lparr>domain_id = 1, domain_name = Some (ascii ''Food''),
       dept_id = 11, dept_name = Some (ascii ''Produce''),
       grp_id = 110, grp_name = Some (ascii ''Fruit''),
       sub_id = 1101, sub_name = Some (ascii ''Green Pears'')\<rparr>]"

definition ex_row ::
  "string \<Rightarrow> ustr option \<Rightarrow> ustr option \<Rightarrow> ustr option \<Rightarrow> ustr option \<Rightarrow> string product" where
  "ex_row i n dm d g =
     \<lparr>item_id = i, item_name = n, domain = dm, dept = d, group = g, subgroup = None,
      supplier_id = ''S1'', supplier_name = ''Acme''\<rparr>"

definition ex_placeholder :: "string product" where
  \<comment> \<open>named "new item peanuts", with a department and a group that the taxonomy resolves\<close>
  "ex_placeholder = ex_row ''P1'' (Some (SKIP_SENTINEL @ [32] @ PEANUTS)) (Some (ascii ''Food''))
     (Some (ascii ''Bakery'')) (Some (ascii ''Bread''))"

definition ex_resolved :: "string product" where
  "ex_resolved = ex_row ''P2'' (Some (ascii ''Sliced white'')) (Some (ascii ''Food''))
     (Some (ascii ''Bakery'')) (Some (ascii ''Bread''))"

definition ex_dept_only :: "string product" where
  "ex_dept_only = ex_row ''P3'' (Some (ascii ''Sliced white'')) None (Some (ascii ''Bakery'')) None"

definition ex_bare :: "string product" where
  "ex_bare = ex_row ''P4'' (Some (ascii ''Sliced white'')) None None None"

definition ex_peanuts :: "string \<Rightarrow> string product" where
  "ex_peanuts i = ex_row i (Some PEANUTS) None None None"

definition ex_sentinel_only :: "string product" where
  "ex_sentinel_only = ex_row ''P7'' (Some SKIP_SENTINEL) None None None"

definition ex_lowercase_dept :: "string product" where
  \<comment> \<open>as \<open>ex_resolved\<close>, with the department written in lower case\<close>
  "ex_lowercase_dept = ex_row ''P8'' (Some (ascii ''Sliced white'')) (Some (ascii ''Food''))
     (Some (ascii ''bakery'')) (Some (ascii ''Bread''))"

section \<open>Basic facts\<close>

lemma starts_with_prefix: "starts_with xs ys \<longleftrightarrow> prefix xs ys"
  by (induction xs ys rule: starts_with.induct) auto

lemma contains_sublist: "contains xs ys \<longleftrightarrow> sublist xs ys"
  by (induction ys) (auto simp: starts_with_prefix sublist_Cons_right)

lemma contains_append_self: "contains xs (xs @ ys)"
  by (simp add: contains_sublist)

lemma placeholder_iff:
  "is_placeholder name \<longleftrightarrow> (\<exists>n. name = Some n \<and> contains SKIP_SENTINEL n)"
  by (cases name) (auto simp: is_placeholder_def SKIP_SENTINEL_def)

lemmas text_ops = ascii_def ascii_lower_def strip_def split_ws_def is_space_def or_empty_def
  or_else_def truthy_def

subsection \<open>The loop appends one result per row\<close>

lemma classify_row_results:
  "results (classify_row lower taxonomy s row) = results s @ [row_result lower taxonomy row]"
  unfolding row_result_def classify_row_def
  by (simp add: init_state_def split: option.splits list.splits prod.splits)

lemma foldl_classify_row_results:
  "results (foldl (classify_row lower taxonomy) s rows)
     = results s @ map (row_result lower taxonomy) rows"
  by (induction rows arbitrary: s) (simp_all add: classify_row_results)

lemma classify_products_results:
  "results (classify_products lower taxonomy rows) = map (row_result lower taxonomy) rows"
  by (simp add: classify_products_def foldl_classify_row_results init_state_def)

lemma row_result_frame:
  "item_id (row_result lower taxonomy row) = item_id row"
  "item_name (row_result lower taxonomy row) = item_name row"
  "supplier_id (row_result lower taxonomy row) = supplier_id row"
  "supplier_name (row_result lower taxonomy row) = supplier_name row"
  unfolding row_result_def classify_row_def
  by (simp_all add: init_state_def split: option.splits list.splits prod.splits)

subsection \<open>The branches of the loop body\<close>

lemma row_result_skipped:
  assumes "is_placeholder (item_name row)"
  shows "row_result lower taxonomy row =
     \<lparr>item_id = item_id row, item_name = item_name row,
      domain = domain row, dept = dept row, group = group row,
      subgroup = Some SKIP_SUBGROUP,
      supplier_id = supplier_id row, supplier_name = supplier_name row,
      status = Skipped\<rparr>"
  using assms unfolding row_result_def classify_row_def by (simp add: init_state_def)

lemma row_result_auto_subgroup:
  assumes "\<not> is_placeholder (item_name row)"
    and "truthy (dept row)" and "truthy (group row)"
    and "truthy (find_subgroup lower (dept row) (group row) (item_name row) taxonomy)"
  shows "row_result lower taxonomy row =
     \<lparr>item_id = item_id row, item_name = item_name row,
      domain = domain row, dept = dept row, group = group row,
      subgroup = find_subgroup lower (dept row) (group row) (item_name row) taxonomy,
      supplier_id = supplier_id row, supplier_name = supplier_name row,
      status = AutoSubgroup\<rparr>"
  using assms unfolding row_result_def classify_row_def by (simp add: init_state_def)

lemma row_result_keyword:
  assumes "\<not> is_placeholder (item_name row)"
    and "\<not> (truthy (dept row) \<and> truthy (group row)
            \<and> truthy (find_subgroup lower (dept row) (group row) (item_name row) taxonomy))"
    and "match_by_keyword lower (item_name row) = Some (a, b, c, d)"
  shows "row_result lower taxonomy row =
     \<lparr>item_id = item_id row, item_name = item_name row,
      domain = Some a, dept = Some b, group = Some c, subgroup = Some d,
      supplier_id = supplier_id row, supplier_name = supplier_name row,
      status = (if is_new (a, b, c, d) then NewCategory else AutoFull)\<rparr>"
  using assms unfolding row_result_def classify_row_def by (auto simp add: init_state_def)

lemma row_result_partial_auto:
  assumes "\<not> is_placeholder (item_name row)"
    and "match_by_keyword lower (item_name row) = None"
    and "truthy (dept row)" and "\<not> truthy (group row)"
    and "dept_matches (dept row) taxonomy = t # ts"
  shows "row_result lower taxonomy row =
     \<lparr>item_id = item_id row, item_name = item_name row,
      domain = or_else (domain row) (domain_name t), dept = dept row, group = grp_name t,
      subgroup = Some (or_empty (sub_name t) @ REVIEW_SUFFIX),
      supplier_id = supplier_id row, supplier_name = supplier_name row,
      status = PartialAuto\<rparr>"
  using assms unfolding row_result_def classify_row_def by (simp add: init_state_def)

lemma row_result_unknown:
  assumes "\<not> is_placeholder (item_name row)"
    and "\<not> (truthy (dept row) \<and> truthy (group row)
            \<and> truthy (find_subgroup lower (dept row) (group row) (item_name row) taxonomy))"
    and "match_by_keyword lower (item_name row) = None"
    and "\<not> (truthy (dept row) \<and> \<not> truthy (group row)) \<or> dept_matches (dept row) taxonomy = []"
  shows "row_result lower taxonomy row =
     \<lparr>item_id = item_id row, item_name = item_name row,
      domain = or_else (domain row) (Some UNKNOWN_DOMAIN),
      dept = or_else (dept row) (Some NEEDS_REVIEW),
      group = or_else (group row) (Some NEEDS_REVIEW),
      subgroup = Some MANUAL_REVIEW,
      supplier_id = supplier_id row, supplier_name = supplier_name row,
      status = Unknown\<rparr>"
  using assms unfolding row_result_def classify_row_def by (auto simp add: init_state_def)

subsection \<open>Facts about the example data\<close>

lemma ex_fields:
  "item_id (ex_row i n dm d g) = i" "item_name (ex_row i n dm d g) = n"
  "domain (ex_row i n dm d g) = dm" "dept (ex_row i n dm d g) = d"
  "group (ex_row i n dm d g) = g" "subgroup (ex_row i n dm d g) = None"
  "supplier_id (ex_row i n dm d g) = ''S1''" "supplier_name (ex_row i n dm d g) = ''Acme''"
  by (simp_all add: ex_row_def)

lemma ex_truthy:
  "truthy (Some (ascii ''Bakery''))" "truthy (Some (ascii ''Bread''))"
  "truthy (Some (ascii ''Loaf''))" "truthy (Some (ascii ''Food''))" "\<not> truthy None"
  by (simp_all add: truthy_def ascii_def)

lemma ex_placeholder_names:
  "is_placeholder (Some SKIP_SENTINEL)"
  "\<not> is_placeholder (Some (ascii ''Sliced white''))"
  "\<not> is_placeholder (Some PEANUTS)"
  by (simp_all add: is_placeholder_def SKIP_SENTINEL_def PEANUTS_def ascii_def)

lemma ex_find_loaf:
  "find_subgroup ascii_lower (Some (ascii ''Bakery'')) (Some (ascii ''Bread'')) name ex_taxonomy
     = Some (ascii ''Loaf'')"
proof -
  have "find_subgroup ascii_lower (Some (map of_char ''Bakery'')) (Some (map of_char ''Bread''))
          name ex_taxonomy = Some (map of_char ''Loaf'')"
    by (simp add: find_subgroup_def subgroup_matches_def ex_taxonomy_def text_ops)
  then show ?thesis by (simp only: ascii_def)
qed

lemma ex_placeholder_result:
  "row_result lower taxonomy ex_placeholder =
     \<lparr>item_id = ''P1'', item_name = Some (SKIP_SENTINEL @ [32] @ PEANUTS),
      domain = Some (ascii ''Food''), dept = Some (ascii ''Bakery''),
      group = Some (ascii ''Bread''), subgroup = Some SKIP_SUBGROUP,
      supplier_id = ''S1'', supplier_name = ''Acme'', status = Skipped\<rparr>"
proof -
  have "is_placeholder (item_name ex_placeholder)"
    by (simp add: ex_placeholder_def ex_fields placeholder_iff contains_sublist)
  from row_result_skipped [OF this] show ?thesis
    by (simp add: ex_placeholder_def ex_fields)
qed

lemma ex_resolved_result:
  "row_result ascii_lower ex_taxonomy ex_resolved =
     \<lparr>item_id = ''P2'', item_name = Some (ascii ''Sliced white''),
      domain = Some (ascii ''Food''), dept = Some (ascii ''Bakery''),
      group = Some (ascii ''Bread''), subgroup = Some (ascii ''Loaf''),
      supplier_id = ''S1'', supplier_name = ''Acme'', status = AutoSubgroup\<rparr>"
  by (simp add: row_result_auto_subgroup ex_resolved_def ex_fields ex_placeholder_names
      ex_truthy ex_find_loaf)

section \<open>Row preservation\<close>

text \<open>
  Claim C1. For every list of product rows, \<open>classify_products\<close> returns as many results
  as there are rows, and the result at position \<open>i\<close> is the one result obtained by
  classifying row \<open>i\<close> on its own: rows are neither dropped, duplicated nor reordered,
  whatever cells are empty. Each result is a record with one \<open>status\<close> field.
\<close>

theorem classify_products_row_preservation:
  "length (results (classify_products lower taxonomy rows)) = length rows \<and>
   (\<forall>i. i < length rows \<longrightarrow>
      results (classify_products lower taxonomy [rows ! i])
        = [results (classify_products lower taxonomy rows) ! i])"
  by (simp add: classify_products_results)

theorem classify_products_row_preservation_witness:
  "length (results (classify_products ascii_lower ex_taxonomy [ex_placeholder, ex_resolved])) = 2
   \<and> (1::nat) < length [ex_placeholder, ex_resolved]
   \<and> results (classify_products ascii_lower ex_taxonomy [[ex_placeholder, ex_resolved] ! 1])
       = [results (classify_products ascii_lower ex_taxonomy [ex_placeholder, ex_resolved]) ! 1]
   \<and> map status (results (classify_products ascii_lower ex_taxonomy [ex_placeholder, ex_resolved]))
       = [Skipped, AutoSubgroup]"
proof -
  have st: "map status (results (classify_products ascii_lower ex_taxonomy [ex_placeholder, ex_resolved]))
       = [Skipped, AutoSubgroup]"
    by (simp add: classify_products_results ex_placeholder_result ex_resolved_result)
  have len: "(1::nat) < length [ex_placeholder, ex_resolved]" by simp
  note inst = classify_products_row_preservation
    [of ascii_lower ex_taxonomy "[ex_placeholder, ex_resolved]"]
  from inst [THEN conjunct1] inst [THEN conjunct2, rule_format, OF len] len st
  show ?thesis by simp
qed

section \<open>Frame\<close>

text \<open>
  Claim C10. Every result, whatever its status, carries the \<open>item_id\<close>, \<open>item_name\<close>,
  \<open>supplier_id\<close> and \<open>supplier_name\<close> of its row unchanged; only \<open>domain\<close>, \<open>dept\<close>,
  \<open>group\<close>, \<open>subgroup\<close> and \<open>status\<close> are written by the cascade.
\<close>

theorem classify_products_frame:
  "map item_id (results (classify_products lower taxonomy rows)) = map item_id rows \<and>
   map item_name (results (classify_products lower taxonomy rows)) = map item_name rows \<and>
   map supplier_id (results (classify_products lower taxonomy rows)) = map supplier_id rows \<and>
   map supplier_name (results (classify_products lower taxonomy rows)) = map supplier_name rows"
  by (simp add: classify_products_results row_result_frame comp_def)

theorem classify_products_frame_witness:
  "map item_id (results (classify_products ascii_lower ex_taxonomy [ex_placeholder, ex_resolved]))
     = [''P1'', ''P2'']
   \<and> map supplier_name (results (classify_products ascii_lower ex_taxonomy [ex_placeholder, ex_resolved]))
     = [''Acme'', ''Acme'']"
  using classify_products_frame [of ascii_lower ex_taxonomy "[ex_placeholder, ex_resolved]"]
  by (simp add: ex_placeholder_def ex_resolved_def ex_fields)

section \<open>Skip precedence\<close>

text \<open>
  Claim C4. A product whose \<open>item_name\<close> contains the skip sentinel gets status
  \<open>Skipped\<close>, whatever its department and group and whatever the taxonomy holds: its
  result copies domain, department and group from the row and has the fixed placeholder
  as subgroup. No later step of the cascade runs: the pass on that row leaves the set
  of new categories as it was and adds one to the \<open>skipped\<close> counter only.
\<close>

theorem skip_precedence:
  assumes "i < length rows" and "item_name (rows ! i) = Some n" and "contains SKIP_SENTINEL n"
  shows "results (classify_products lower taxonomy rows) ! i =
     \<lparr>item_id = item_id (rows ! i), item_name = item_name (rows ! i),
      domain = domain (rows ! i), dept = dept (rows ! i), group = group (rows ! i),
      subgroup = Some SKIP_SUBGROUP,
      supplier_id = supplier_id (rows ! i), supplier_name = supplier_name (rows ! i),
      status = Skipped\<rparr>
    \<and> new_categories (classify_row lower taxonomy s (rows ! i)) = new_categories s
    \<and> stats (classify_row lower taxonomy s (rows ! i))
        = (stats s)\<lparr>skipped := skipped (stats s) + 1\<rparr>"
proof -
  have ph: "is_placeholder (item_name (rows ! i))"
    using assms(2,3) by (auto simp: placeholder_iff)
  have "results (classify_products lower taxonomy rows) ! i = row_result lower taxonomy (rows ! i)"
    using assms(1) by (simp add: classify_products_results)
  moreover have "new_categories (classify_row lower taxonomy s (rows ! i)) = new_categories s"
    using ph by (simp add: classify_row_def)
  moreover have "stats (classify_row lower taxonomy s (rows ! i))
        = (stats s)\<lparr>skipped := skipped (stats s) + 1\<rparr>"
    using ph by (simp add: classify_row_def)
  ultimately show ?thesis using row_result_skipped[OF ph] by simp
qed

theorem skip_precedence_witness:
  "(1::nat) < length [ex_resolved, ex_placeholder]
   \<and> item_name ([ex_resolved, ex_placeholder] ! 1) = Some (SKIP_SENTINEL @ [32] @ PEANUTS)
   \<and> contains SKIP_SENTINEL (SKIP_SENTINEL @ [32] @ PEANUTS)
   \<and> find_subgroup ascii_lower (dept ex_placeholder) (group ex_placeholder)
        (item_name ex_placeholder) ex_taxonomy = Some (ascii ''Loaf'')
   \<and> results (classify_products ascii_lower ex_taxonomy [ex_resolved, ex_placeholder]) ! 1 =
       \<lparr>item_id = ''P1'', item_name = Some (SKIP_SENTINEL @ [32] @ PEANUTS),
        domain = Some (ascii ''Food''), dept = Some (ascii ''Bakery''),
        group = Some (ascii ''Bread''), subgroup = Some SKIP_SUBGROUP,
        supplier_id = ''S1'', supplier_name = ''Acme'', status = Skipped\<rparr>"
proof -
  have h1: "(1::nat) < length [ex_resolved, ex_placeholder]" by simp
  have h2: "item_name ([ex_resolved, ex_placeholder] ! 1) = Some (SKIP_SENTINEL @ [32] @ PEANUTS)"
    by (simp add: ex_placeholder_def ex_fields)
  have h3: "contains SKIP_SENTINEL (SKIP_SENTINEL @ [32] @ PEANUTS)"
    by (rule contains_append_self)
  have h4: "find_subgroup ascii_lower (dept ex_placeholder) (group ex_placeholder)
        (item_name ex_placeholder) ex_taxonomy = Some (ascii ''Loaf'')"
    by (simp add: ex_placeholder_def ex_fields ex_find_loaf)
  from skip_precedence [OF h1 h2 h3, of ascii_lower ex_taxonomy init_state] h1 h2 h3 h4
  show ?thesis by (simp add: ex_placeholder_def ex_fields)
qed

section \<open>Keyword matcher\<close>

lemma any_keyword_iff:
  "any_keyword lower kws nl \<longleftrightarrow> (\<exists>kw\<in>set kws. contains (lower kw) nl)"
  by (induction kws) auto

lemma match_rules_find:
  "match_rules lower rules nl =
     map_option snd (find (\<lambda>r. \<exists>kw\<in>set (fst r). contains (lower kw) nl) rules)"
  by (induction rules) (auto simp: any_keyword_iff)

lemma match_rules_first:
  assumes fixed: "\<forall>r\<in>set rules. \<forall>kw\<in>set (fst r). lower kw = kw"
  shows "(match_rules lower rules nl = None \<longleftrightarrow>
            (\<forall>i<length rules. \<forall>kw\<in>set (fst (rules ! i)). \<not> contains kw nl))
       \<and> (\<forall>c. match_rules lower rules nl = Some c \<longleftrightarrow>
            (\<exists>i<length rules. (\<exists>kw\<in>set (fst (rules ! i)). contains kw nl)
               \<and> (\<forall>j<i. \<forall>kw\<in>set (fst (rules ! j)). \<not> contains kw nl)
               \<and> c = snd (rules ! i)))"
proof -
  define P where "P r \<longleftrightarrow> (\<exists>kw\<in>set (fst r). contains kw nl)" for r :: rule
  have "find (\<lambda>r. \<exists>kw\<in>set (fst r). contains (lower kw) nl) rules = find P rules"
    using fixed by (intro find_cong) (auto simp: P_def)
  then have m: "match_rules lower rules nl = map_option snd (find P rules)"
    by (simp add: match_rules_find)
  have none: "match_rules lower rules nl = None \<longleftrightarrow> (\<forall>i<length rules. \<not> P (rules ! i))"
  proof -
    have "match_rules lower rules nl = None \<longleftrightarrow> (\<forall>r\<in>set rules. \<not> P r)"
      unfolding m by (simp only: option.map_disc_iff find_None_iff) blast
    then show ?thesis by (simp only: all_set_conv_all_nth)
  qed
  have some: "match_rules lower rules nl = Some c \<longleftrightarrow>
      (\<exists>i<length rules. P (rules ! i) \<and> (\<forall>j<i. \<not> P (rules ! j)) \<and> c = snd (rules ! i))" for c
  proof -
    have "match_rules lower rules nl = Some c \<longleftrightarrow> (\<exists>r. find P rules = Some r \<and> c = snd r)"
      unfolding m by (cases "find P rules") auto
    then show ?thesis by (simp only: find_Some_iff) blast
  qed
  show ?thesis using none some by (simp add: P_def)
qed

lemma ex_keywords_fixed: "\<forall>r\<in>set RULES. \<forall>kw\<in>set (fst r). ascii_lower kw = kw"
  by (simp add: RULES_def ascii_lower_def)

lemma ex_match_peanuts: "match_by_keyword ascii_lower (Some PEANUTS) = Some PEANUTS_CATEGORY"
  by (simp add: match_by_keyword_def lowered_name_def RULES_def ascii_lower_def PEANUTS_def
      PEANUTS_CATEGORY_def)

lemma ex_match_sliced: "match_by_keyword ascii_lower (Some (ascii ''Sliced white'')) = None"
  by (simp add: match_by_keyword_def lowered_name_def RULES_def ascii_lower_def ascii_def)

lemma ex_match_sentinel: "match_by_keyword ascii_lower (Some SKIP_SENTINEL) = None"
  by (simp add: match_by_keyword_def lowered_name_def RULES_def ascii_lower_def SKIP_SENTINEL_def)

text \<open>
  Claim C5. \<open>match_by_keyword\<close> returns the category of the first rule of \<open>RULES\<close>, in
  table order, that has a keyword occurring in the lower-cased name, and \<open>None\<close> when no
  rule has one. So whenever a rule matches, the result is the category of a matching
  rule at or before it: of two matching rules the later one never decides. The result
  is a function of the table and the name. The source lower-cases the keyword as
  well; the keywords of \<open>RULES\<close> are Hebrew and have no letter case, which is the
  hypothesis on \<open>lower\<close>.
\<close>

theorem match_by_keyword_first_rule:
  assumes "\<forall>r\<in>set RULES. \<forall>kw\<in>set (fst r). lower kw = kw"
  shows "(match_by_keyword lower name = None \<longleftrightarrow>
            (\<forall>i<length RULES. \<forall>kw\<in>set (fst (RULES ! i)).
                \<not> contains kw (lowered_name lower name)))
       \<and> (\<forall>c. match_by_keyword lower name = Some c \<longleftrightarrow>
            (\<exists>i<length RULES.
                (\<exists>kw\<in>set (fst (RULES ! i)). contains kw (lowered_name lower name))
               \<and> (\<forall>j<i. \<forall>kw\<in>set (fst (RULES ! j)).
                     \<not> contains kw (lowered_name lower name))
               \<and> c = snd (RULES ! i)))
       \<and> (\<forall>i<length RULES.
            (\<exists>kw\<in>set (fst (RULES ! i)). contains kw (lowered_name lower name)) \<longrightarrow>
            (\<exists>k\<le>i. match_by_keyword lower name = Some (snd (RULES ! k))
                 \<and> (\<exists>kw\<in>set (fst (RULES ! k)). contains kw (lowered_name lower name))))"
proof -
  let ?M = "\<lambda>i. \<exists>kw\<in>set (fst (RULES ! i)). contains kw (lowered_name lower name)"
  note char = match_rules_first [OF assms, of "lowered_name lower name"]
  have none: "match_by_keyword lower name = None \<longleftrightarrow> (\<forall>i<length RULES. \<not> ?M i)"
    unfolding match_by_keyword_def using char [THEN conjunct1] by simp
  have some: "match_by_keyword lower name = Some c \<longleftrightarrow>
      (\<exists>i<length RULES. ?M i \<and> (\<forall>j<i. \<not> ?M j) \<and> c = snd (RULES ! i))" for c
    unfolding match_by_keyword_def using char [THEN conjunct2, rule_format, of c] by simp
  have first: "\<exists>k\<le>i. match_by_keyword lower name = Some (snd (RULES ! k)) \<and> ?M k"
    if i: "i < length RULES" and m: "?M i" for i
  proof -
    from i m none obtain c where c: "match_by_keyword lower name = Some c"
      by (cases "match_by_keyword lower name") auto
    with some obtain k where k: "k < length RULES" "?M k" "\<forall>j<k. \<not> ?M j" "c = snd (RULES ! k)"
      by blast
    from k(3) m have "k \<le> i" by (meson not_le_imp_less)
    with c k show ?thesis by blast
  qed
  from none some first show ?thesis by simp
qed

theorem match_by_keyword_first_rule_witness:
  "list_all (\<lambda>r. list_all (\<lambda>kw. ascii_lower kw = kw) (fst r)) RULES
   \<and> match_by_keyword ascii_lower (Some PEANUTS) = Some PEANUTS_CATEGORY
   \<and> (\<exists>i. i < length RULES \<and> PEANUTS_CATEGORY = snd (RULES ! i)
          \<and> (\<exists>kw. kw \<in> set (fst (RULES ! i))
                \<and> contains kw (lowered_name ascii_lower (Some PEANUTS))))"
proof -
  note inst = match_by_keyword_first_rule [OF ex_keywords_fixed, of "Some PEANUTS"]
  from inst [THEN conjunct2, THEN conjunct1, rule_format, of PEANUTS_CATEGORY] ex_match_peanuts
  have "\<exists>i<length RULES.
          (\<exists>kw\<in>set (fst (RULES ! i)). contains kw (lowered_name ascii_lower (Some PEANUTS)))
          \<and> (\<forall>j<i. \<forall>kw\<in>set (fst (RULES ! j)).
                \<not> contains kw (lowered_name ascii_lower (Some PEANUTS)))
          \<and> PEANUTS_CATEGORY = snd (RULES ! i)"
    by simp
  then have "\<exists>i. i < length RULES \<and> PEANUTS_CATEGORY = snd (RULES ! i)
          \<and> (\<exists>kw. kw \<in> set (fst (RULES ! i))
                \<and> contains kw (lowered_name ascii_lower (Some PEANUTS)))"
    by blast
  moreover have "list_all (\<lambda>r. list_all (\<lambda>kw. ascii_lower kw = kw) (fst r)) RULES"
    using ex_keywords_fixed by (simp only: list_all_iff)
  ultimately show ?thesis using ex_match_peanuts by blast
qed

section \<open>Subgroup resolver\<close>

lemma first_word_match_find:
  "first_word_match lower nl ms = map_option sub_name (find (word_in_name lower nl) ms)"
  by (induction ms) auto

lemma word_in_name_iff:
  "word_in_name lower nl m \<longleftrightarrow>
     (\<exists>w\<in>set (split_ws (lower (or_empty (sub_name m)))). 2 < length w \<and> contains w nl)"
  by (auto simp: word_in_name_def Let_def list_ex_iff)

text \<open>
  Claim C6, as amended. With no candidate \<open>find_subgroup\<close> returns \<open>None\<close>; with one
  candidate it returns that candidate's subgroup name, whatever the item name; with
  several it returns the subgroup of the first candidate, in table order, that has a
  whitespace-delimited token of its lower-cased subgroup name, longer than 2, inside the
  lower-cased item name, and the first candidate's subgroup when no candidate has one.
  The claim as worded takes the tokens of the subgroup name as stored; the source
  lower-cases the subgroup name before it splits it.
\<close>

theorem find_subgroup_resolution:
  "find_subgroup lower d g product_name taxonomy =
     (case subgroup_matches d g taxonomy of
        [] \<Rightarrow> None
      | [c] \<Rightarrow> sub_name c
      | c # cs \<Rightarrow>
          (case find (\<lambda>m. \<exists>w\<in>set (split_ws (lower (or_empty (sub_name m)))).
                              2 < length w \<and> contains w (lower (or_empty product_name))) (c # cs) of
             Some m \<Rightarrow> sub_name m
           | None \<Rightarrow> sub_name c))"
proof -
  have w: "word_in_name lower nl = (\<lambda>m. \<exists>w\<in>set (split_ws (lower (or_empty (sub_name m)))).
                              2 < length w \<and> contains w nl)" for nl
    by (rule ext) (rule word_in_name_iff)
  show ?thesis
    unfolding find_subgroup_def Let_def first_word_match_find w
    by (simp split: list.splits option.splits)
qed

theorem find_subgroup_resolution_witness:
  "find_subgroup ascii_lower (Some (ascii ''Produce'')) (Some (ascii ''Fruit''))
      (Some (ascii ''Green Pears 1kg'')) ex_taxonomy = Some (ascii ''Green Pears'')"
  using find_subgroup_resolution [of ascii_lower "Some (ascii ''Produce'')" "Some (ascii ''Fruit'')"
      "Some (ascii ''Green Pears 1kg'')" ex_taxonomy]
  by (simp add: subgroup_matches_def ex_taxonomy_def text_ops)

text \<open>
  The claim as worded fails on a taxonomy with the subgroups "Red Apples" and
  "Green Pears" and the item "Green Pears 1kg": no capitalised token occurs in the
  lower-cased name, so the worded resolver falls back to "Red Apples", while the source
  finds "green" and returns "Green Pears".
\<close>

theorem spec_find_subgroup_counterexample:
  "find_subgroup ascii_lower (Some (ascii ''Produce'')) (Some (ascii ''Fruit''))
      (Some (ascii ''Green Pears 1kg'')) ex_taxonomy = Some (ascii ''Green Pears'')
   \<and> spec_find_subgroup ascii_lower (Some (ascii ''Produce'')) (Some (ascii ''Fruit''))
      (Some (ascii ''Green Pears 1kg'')) ex_taxonomy = Some (ascii ''Red Apples'')"
  by (simp add: find_subgroup_def spec_find_subgroup_def subgroup_matches_def ex_taxonomy_def
      word_in_name_def text_ops)

text \<open>
  The example of the specification, subgroups "Red Apples" and "Green Apples" and the
  item "Organic Green Apples 1kg": the first candidate already passes the test with
  its token "apples", so the source returns "Red Apples".
\<close>

lemma spec_example_green_apples:
  "find_subgroup ascii_lower (Some (ascii ''Produce'')) (Some (ascii ''Fruit''))
      (Some (ascii ''Organic Green Apples 1kg''))
      [\<lparr>domain_id = 1::nat, domain_name = Some (ascii ''Food''),
        dept_id = 11, dept_name = Some (ascii ''Produce''),
        grp_id = 110, grp_name = Some (ascii ''Fruit''),
        sub_id = 1100, sub_name = Some (ascii ''Red Apples'')\<rparr>,
       \<lparr>domain_id = 1, domain_name = Some (ascii ''Food''),
        dept_id = 11, dept_name = Some (ascii ''Produce''),
        grp_id = 110, grp_name = Some (ascii ''Fruit''),
        sub_id = 1101, sub_name = Some (ascii ''Green Apples'')\<rparr>] = Some (ascii ''Red Apples'')"
  by (simp add: find_subgroup_def subgroup_matches_def word_in_name_def text_ops)


section \<open>The fallbacks\<close>

lemma find_filter_Cons: "find P xs = Some t \<Longrightarrow> \<exists>ts. filter P xs = t # ts"
  by (induction xs) (auto split: if_splits)


lemma classify_products_nth:
  "i < length rows \<Longrightarrow>
     results (classify_products lower taxonomy rows) ! i = row_result lower taxonomy (rows ! i)"
  by (simp add: classify_products_results)

lemma ex_dept_matches:
  "find (\<lambda>t. Some (strip (or_empty (dept_name t))) = Some (ascii ''Bakery'') \<and> truthy (sub_name t))
     ex_taxonomy = Some (ex_taxonomy ! 0)"
  by (simp add: ex_taxonomy_def text_ops)



lemma cell_match_by_keyword_text:
  "cell_match_by_keyword lower (as_cell name) = Inr (match_by_keyword lower name)"
  by (cases name)
     (simp_all add: cell_match_by_keyword_def cell_lowered_name_def as_cell_def
        match_by_keyword_def lowered_name_def)

text \<open>
  On a name cell that is a number other than 0 the keyword step raises, whatever the
  rules are; the skip test before it reads the same cell through \<open>str\<close>.
\<close>

lemma cell_match_by_keyword_number:
  "k \<noteq> 0 \<Longrightarrow> cell_match_by_keyword lower (NumberCell k) = Inl AttributeError"
  by (simp add: cell_match_by_keyword_def cell_lowered_name_def)

lemma numeric_name_raises:
  "cell_match_by_keyword ascii_lower (NumberCell 12345) = Inl AttributeError"
  by (simp add: cell_match_by_keyword_number)

text \<open>
  Claim C9, as amended. A product whose name cell is empty or text and does not contain
  the skip sentinel, with no department, no group and a name that matches no keyword
  rule: the keyword step, the one step on this path that can raise, returns \<open>None\<close>,
  and the product gets status \<open>Unknown\<close>; the domain is the input domain or else the
  "not known" sentinel, the department and the group are the "for review" sentinel
  and the subgroup is the "manual review" sentinel.
\<close>

theorem unknown_fallback:
  assumes "i < length rows"
    and "\<not> is_placeholder (item_name (rows ! i))"
    and "\<not> truthy (dept (rows ! i))" and "\<not> truthy (group (rows ! i))"
    and "match_by_keyword lower (item_name (rows ! i)) = None"
  shows "cell_match_by_keyword lower (as_cell (item_name (rows ! i))) = Inr None
     \<and> results (classify_products lower taxonomy rows) ! i =
       \<lparr>item_id = item_id (rows ! i), item_name = item_name (rows ! i),
        domain = (if truthy (domain (rows ! i)) then domain (rows ! i) else Some UNKNOWN_DOMAIN),
        dept = Some NEEDS_REVIEW, group = Some NEEDS_REVIEW,
        subgroup = Some MANUAL_REVIEW,
        supplier_id = supplier_id (rows ! i), supplier_name = supplier_name (rows ! i),
        status = Unknown\<rparr>"
proof -
  have "row_result lower taxonomy (rows ! i) =
     \<lparr>item_id = item_id (rows ! i), item_name = item_name (rows ! i),
      domain = or_else (domain (rows ! i)) (Some UNKNOWN_DOMAIN),
      dept = or_else (dept (rows ! i)) (Some NEEDS_REVIEW),
      group = or_else (group (rows ! i)) (Some NEEDS_REVIEW),
      subgroup = Some MANUAL_REVIEW,
      supplier_id = supplier_id (rows ! i), supplier_name = supplier_name (rows ! i),
      status = Unknown\<rparr>"
    using assms(2-5) by (intro row_result_unknown) auto
  with assms(1,3,4,5) show ?thesis
    by (simp add: classify_products_nth or_else_def cell_match_by_keyword_text)
qed

theorem unknown_fallback_witness:
  "(0::nat) < length [ex_bare]
   \<and> \<not> is_placeholder (item_name ([ex_bare] ! 0))
   \<and> \<not> truthy (dept ([ex_bare] ! 0)) \<and> \<not> truthy (group ([ex_bare] ! 0))
   \<and> match_by_keyword ascii_lower (item_name ([ex_bare] ! 0)) = None
   \<and> cell_match_by_keyword ascii_lower (TextCell (ascii ''Sliced white'')) = Inr None
   \<and> results (classify_products ascii_lower ex_taxonomy [ex_bare]) ! 0 =
       \<lparr>item_id = ''P4'', item_name = Some (ascii ''Sliced white''),
        domain = Some UNKNOWN_DOMAIN, dept = Some NEEDS_REVIEW, group = Some NEEDS_REVIEW,
        subgroup = Some MANUAL_REVIEW,
        supplier_id = ''S1'', supplier_name = ''Acme'', status = Unknown\<rparr>"
proof -
  have h1: "(0::nat) < length [ex_bare]" by simp
  have h2: "\<not> is_placeholder (item_name ([ex_bare] ! 0))"
    by (simp add: ex_bare_def ex_fields ex_placeholder_names)
  have h3: "\<not> truthy (dept ([ex_bare] ! 0))" by (simp add: ex_bare_def ex_fields ex_truthy)
  have h4: "\<not> truthy (group ([ex_bare] ! 0))" by (simp add: ex_bare_def ex_fields ex_truthy)
  have h5: "match_by_keyword ascii_lower (item_name ([ex_bare] ! 0)) = None"
    by (simp add: ex_bare_def ex_fields ex_match_sliced)
  note inst = unknown_fallback [OF h1 h2 h3 h4 h5, of ex_taxonomy]
  from inst [THEN conjunct1]
  have c: "cell_match_by_keyword ascii_lower (TextCell (ascii ''Sliced white'')) = Inr None"
    by (simp add: ex_bare_def ex_fields as_cell_def)
  from inst [THEN conjunct2]
  have "results (classify_products ascii_lower ex_taxonomy [ex_bare]) ! 0 =
       \<lparr>item_id = ''P4'', item_name = Some (ascii ''Sliced white''),
        domain = Some UNKNOWN_DOMAIN, dept = Some NEEDS_REVIEW, group = Some NEEDS_REVIEW,
        subgroup = Some MANUAL_REVIEW,
        supplier_id = ''S1'', supplier_name = ''Acme'', status = Unknown\<rparr>"
    by (simp add: ex_bare_def ex_fields ex_truthy)
  with h1 h2 h3 h4 h5 c show ?thesis by blast
qed

text \<open>
  Without the condition on the sentinel the claim fails: the product named exactly by
  the sentinel has no department, no group and a name that no keyword matches, and it is
  \<open>Skipped\<close>.
\<close>

theorem unknown_fallback_counterexample:
  "dept ex_sentinel_only = None \<and> group ex_sentinel_only = None
   \<and> match_by_keyword ascii_lower (item_name ex_sentinel_only) = None
   \<and> map status (results (classify_products ascii_lower ex_taxonomy [ex_sentinel_only])) = [Skipped]"
proof -
  have "is_placeholder (item_name ex_sentinel_only)"
    by (simp add: ex_sentinel_only_def ex_fields ex_placeholder_names)
  then have "status (row_result ascii_lower ex_taxonomy ex_sentinel_only) = Skipped"
    by (simp add: row_result_skipped)
  then show ?thesis
    by (simp add: classify_products_results ex_sentinel_only_def ex_fields ex_match_sentinel)
qed

section \<open>New categories\<close>

lemma sublist_sep:
  assumes "s \<notin> set m" and "m \<noteq> []"
  shows "sublist m (xs @ s # ys) \<longleftrightarrow> sublist m xs \<or> sublist m ys"
proof -
  have np: "\<not> prefix m (s # zs)" for zs
    using assms by (cases m) (auto simp: prefix_Cons)
  have "sublist m xs" if "m = xs1 @ xs2" "suffix xs1 xs" "prefix xs2 (s # ys)" for xs1 xs2
  proof (cases xs2)
    case Nil
    with that show ?thesis by auto
  next
    case (Cons a as)
    with that(3) have "a = s" by (simp add: prefix_Cons)
    with Cons that(1) assms(1) show ?thesis by auto
  qed
  then show ?thesis
    by (auto simp: sublist_append sublist_Cons_right np)
qed

lemma is_new_iff:
  "is_new (a, b, c, d) \<longleftrightarrow>
     contains NEW_MARKER b \<or> contains NEW_MARKER c \<or> contains NEW_MARKER d"
proof -
  have m: "32 \<notin> set NEW_MARKER" "NEW_MARKER \<noteq> []" by (simp_all add: NEW_MARKER_def)
  show ?thesis
    by (simp add: is_new_def contains_sublist sublist_sep [OF m] disj_assoc)
qed

lemma classify_row_new_categories:
  "new_categories (classify_row lower taxonomy s row) =
     (if status (row_result lower taxonomy row) = NewCategory
      then insert (resolved_tuple (row_result lower taxonomy row)) (new_categories s)
      else new_categories s)"
  unfolding row_result_def classify_row_def
  by (simp add: init_state_def resolved_tuple_def or_empty_def
      split: option.splits list.splits prod.splits)

lemma foldl_classify_row_new_categories:
  "new_categories (foldl (classify_row lower taxonomy) s rows) =
     new_categories s \<union>
     resolved_tuple ` {r \<in> set (map (row_result lower taxonomy) rows). status r = NewCategory}"
  by (induction rows arbitrary: s) (auto simp: classify_row_new_categories)

lemma classify_products_new_categories:
  "new_categories (classify_products lower taxonomy rows) =
     resolved_tuple ` {r \<in> set (results (classify_products lower taxonomy rows)).
                         status r = NewCategory}"
  by (simp add: classify_products_results)
     (simp add: classify_products_def foldl_classify_row_new_categories init_state_def)


lemma finite_new_categories: "finite (new_categories (classify_products lower taxonomy rows))"
  by (simp add: classify_products_new_categories)

lemma ex_peanuts_marked:
  "contains NEW_MARKER (fst (snd (snd PEANUTS_CATEGORY)))"
  by (simp add: NEW_MARKER_def PEANUTS_CATEGORY_def)

lemma singleton_list:
  assumes "distinct xs" and "set xs = {x}"
  shows "xs = [x]"
proof (cases xs)
  case Nil
  with assms show ?thesis by simp
next
  case (Cons y ys)
  with assms have "y = x" and "set ys \<subseteq> {x}" and "x \<notin> set ys" by auto
  then have "ys = []" by (cases ys) auto
  with Cons \<open>y = x\<close> show ?thesis by simp
qed

lemma ex_peanuts_result:
  "row_result ascii_lower ex_taxonomy (ex_peanuts i) =
     \<lparr>item_id = i, item_name = Some PEANUTS,
      domain = Some (fst PEANUTS_CATEGORY), dept = Some (fst (snd PEANUTS_CATEGORY)),
      group = Some (fst (snd (snd PEANUTS_CATEGORY))),
      subgroup = Some (snd (snd (snd PEANUTS_CATEGORY))),
      supplier_id = ''S1'', supplier_name = ''Acme'', status = NewCategory\<rparr>"
proof -
  obtain a b c d where cat: "PEANUTS_CATEGORY = (a, b, c, d)"
    by (cases PEANUTS_CATEGORY) auto
  have new: "is_new (a, b, c, d)"
    using ex_peanuts_marked by (simp add: is_new_iff cat)
  have m: "match_by_keyword ascii_lower (item_name (ex_peanuts i)) = Some (a, b, c, d)"
    by (simp add: ex_peanuts_def ex_fields ex_match_peanuts cat)
  have "row_result ascii_lower ex_taxonomy (ex_peanuts i) =
     \<lparr>item_id = item_id (ex_peanuts i), item_name = item_name (ex_peanuts i),
      domain = Some a, dept = Some b, group = Some c, subgroup = Some d,
      supplier_id = supplier_id (ex_peanuts i), supplier_name = supplier_name (ex_peanuts i),
      status = (if is_new (a, b, c, d) then NewCategory else AutoFull)\<rparr>"
    by (rule row_result_keyword [OF _ _ m])
       (simp_all add: ex_peanuts_def ex_fields ex_placeholder_names ex_truthy)
  then show ?thesis by (simp add: new cat ex_peanuts_def ex_fields)
qed

text \<open>
  Claim C8, as amended. A product that reaches the keyword step (its name does not
  contain the skip sentinel and subgroup resolution did not resolve it) and whose
  matched rule, the first matching one, has a category whose department, group or
  subgroup contains the new-category marker gets status \<open>NewCategory\<close>, its resolved
  fields are that category, and the category is in the returned set. The returned set is
  exactly the set of resolved tuples of the \<open>NewCategory\<close> results, so a tuple resolved for
  several products is in it once. The list reported by \<open>main\<close> is sorted in the
  lexicographic order of the tuples, has no duplicate and has the elements of the set.
\<close>

theorem new_category_dedup:
  "(\<forall>i a b c d.
      i < length rows
      \<and> \<not> is_placeholder (item_name (rows ! i))
      \<and> \<not> (truthy (dept (rows ! i)) \<and> truthy (group (rows ! i))
            \<and> truthy (find_subgroup lower (dept (rows ! i)) (group (rows ! i))
                        (item_name (rows ! i)) taxonomy))
      \<and> match_by_keyword lower (item_name (rows ! i)) = Some (a, b, c, d)
      \<and> (contains NEW_MARKER b \<or> contains NEW_MARKER c \<or> contains NEW_MARKER d)
      \<longrightarrow> results (classify_products lower taxonomy rows) ! i =
            \<lparr>item_id = item_id (rows ! i), item_name = item_name (rows ! i),
             domain = Some a, dept = Some b, group = Some c, subgroup = Some d,
             supplier_id = supplier_id (rows ! i), supplier_name = supplier_name (rows ! i),
             status = NewCategory\<rparr>
          \<and> (a, b, c, d) \<in> new_categories (classify_products lower taxonomy rows))
   \<and> new_categories (classify_products lower taxonomy rows) =
        resolved_tuple ` {r \<in> set (results (classify_products lower taxonomy rows)).
                            status r = NewCategory}
   \<and> sorted (sorted_new_categories (new_categories (classify_products lower taxonomy rows)))
   \<and> distinct (sorted_new_categories (new_categories (classify_products lower taxonomy rows)))
   \<and> set (sorted_new_categories (new_categories (classify_products lower taxonomy rows)))
        = new_categories (classify_products lower taxonomy rows)"
proof (intro conjI allI impI)
  fix i a b c d
  assume h: "i < length rows
      \<and> \<not> is_placeholder (item_name (rows ! i))
      \<and> \<not> (truthy (dept (rows ! i)) \<and> truthy (group (rows ! i))
            \<and> truthy (find_subgroup lower (dept (rows ! i)) (group (rows ! i))
                        (item_name (rows ! i)) taxonomy))
      \<and> match_by_keyword lower (item_name (rows ! i)) = Some (a, b, c, d)
      \<and> (contains NEW_MARKER b \<or> contains NEW_MARKER c \<or> contains NEW_MARKER d)"
  then have new: "is_new (a, b, c, d)" by (simp add: is_new_iff)
  from h have r: "row_result lower taxonomy (rows ! i) =
            \<lparr>item_id = item_id (rows ! i), item_name = item_name (rows ! i),
             domain = Some a, dept = Some b, group = Some c, subgroup = Some d,
             supplier_id = supplier_id (rows ! i), supplier_name = supplier_name (rows ! i),
             status = NewCategory\<rparr>"
    using row_result_keyword [of "rows ! i" lower taxonomy a b c d] new by simp
  with h show "results (classify_products lower taxonomy rows) ! i =
            \<lparr>item_id = item_id (rows ! i), item_name = item_name (rows ! i),
             domain = Some a, dept = Some b, group = Some c, subgroup = Some d,
             supplier_id = supplier_id (rows ! i), supplier_name = supplier_name (rows ! i),
             status = NewCategory\<rparr>"
    by (simp add: classify_products_nth)
  have "row_result lower taxonomy (rows ! i) \<in> set (map (row_result lower taxonomy) rows)"
    using h by simp
  moreover have "status (row_result lower taxonomy (rows ! i)) = NewCategory"
    "resolved_tuple (row_result lower taxonomy (rows ! i)) = (a, b, c, d)"
    by (simp_all add: r resolved_tuple_def or_empty_def)
  ultimately show "(a, b, c, d) \<in> new_categories (classify_products lower taxonomy rows)"
    unfolding classify_products_new_categories classify_products_results
    by (metis (mono_tags, lifting) image_eqI mem_Collect_eq)
next
  show "new_categories (classify_products lower taxonomy rows) =
        resolved_tuple ` {r \<in> set (results (classify_products lower taxonomy rows)).
                            status r = NewCategory}"
    by (rule classify_products_new_categories)
next
  show "sorted (sorted_new_categories (new_categories (classify_products lower taxonomy rows)))"
    by (simp add: sorted_new_categories_def)
next
  show "distinct (sorted_new_categories (new_categories (classify_products lower taxonomy rows)))"
    by (simp add: sorted_new_categories_def)
next
  show "set (sorted_new_categories (new_categories (classify_products lower taxonomy rows)))
        = new_categories (classify_products lower taxonomy rows)"
    by (simp add: sorted_new_categories_def finite_new_categories)
qed

theorem new_category_dedup_witness:
  "(1::nat) < length [ex_peanuts ''P5'', ex_peanuts ''P6'']
   \<and> \<not> is_placeholder (item_name ([ex_peanuts ''P5'', ex_peanuts ''P6''] ! 1))
   \<and> match_by_keyword ascii_lower (item_name ([ex_peanuts ''P5'', ex_peanuts ''P6''] ! 1))
        = Some PEANUTS_CATEGORY
   \<and> contains NEW_MARKER (fst (snd (snd PEANUTS_CATEGORY)))
   \<and> map status (results (classify_products ascii_lower ex_taxonomy
                            [ex_peanuts ''P5'', ex_peanuts ''P6''])) = [NewCategory, NewCategory]
   \<and> PEANUTS_CATEGORY \<in> new_categories (classify_products ascii_lower ex_taxonomy
                            [ex_peanuts ''P5'', ex_peanuts ''P6''])
   \<and> sorted_new_categories (new_categories (classify_products ascii_lower ex_taxonomy
                            [ex_peanuts ''P5'', ex_peanuts ''P6''])) = [PEANUTS_CATEGORY]"
proof -
  let ?rows = "[ex_peanuts ''P5'', ex_peanuts ''P6'']"
  let ?X = "classify_products ascii_lower ex_taxonomy ?rows"
  obtain a b c d where cat: "PEANUTS_CATEGORY = (a, b, c, d)"
    by (cases PEANUTS_CATEGORY) auto
  have h1: "(1::nat) < length ?rows" by simp
  have h2: "\<not> is_placeholder (item_name (?rows ! 1))"
    by (simp add: ex_peanuts_def ex_fields ex_placeholder_names)
  have h3: "\<not> (truthy (dept (?rows ! 1)) \<and> truthy (group (?rows ! 1))
            \<and> truthy (find_subgroup ascii_lower (dept (?rows ! 1)) (group (?rows ! 1))
                        (item_name (?rows ! 1)) ex_taxonomy))"
    by (simp add: ex_peanuts_def ex_fields ex_truthy)
  have h4: "match_by_keyword ascii_lower (item_name (?rows ! 1)) = Some PEANUTS_CATEGORY"
    by (simp add: ex_peanuts_def ex_fields ex_match_peanuts)
  have h5: "contains NEW_MARKER (fst (snd (snd PEANUTS_CATEGORY)))"
    by (rule ex_peanuts_marked)
  note inst = new_category_dedup [of ?rows ascii_lower ex_taxonomy]
  have mem: "PEANUTS_CATEGORY \<in> new_categories ?X"
    using inst [THEN conjunct1, rule_format, of 1 a b c d] h1 h2 h3 h4 h5
    by (simp add: cat)
  have st: "map status (results ?X) = [NewCategory, NewCategory]"
    by (simp add: classify_products_results ex_peanuts_result)
  have rt: "resolved_tuple (row_result ascii_lower ex_taxonomy (ex_peanuts i)) = PEANUTS_CATEGORY"
    and sn: "status (row_result ascii_lower ex_taxonomy (ex_peanuts i)) = NewCategory" for i
    by (simp_all add: ex_peanuts_result resolved_tuple_def or_empty_def)
  have "new_categories ?X \<subseteq> {PEANUTS_CATEGORY}"
    unfolding inst [THEN conjunct2, THEN conjunct1] classify_products_results
    by (auto simp add: rt)
  with mem have "new_categories ?X = {PEANUTS_CATEGORY}" by blast
  with inst [THEN conjunct2, THEN conjunct2]
  have "sorted_new_categories (new_categories ?X) = [PEANUTS_CATEGORY]"
    by (intro singleton_list) simp_all
  with h1 h2 h4 h5 mem st show ?thesis by blast
qed

text \<open>
  The claim as worded, for every product whose name matches a rule with a marked
  category, fails on a product that an earlier step of the cascade stops: the product
  named "new item peanuts" matches the rule for peanuts, whose category is marked, and
  is \<open>Skipped\<close>; nothing is added to the set.
\<close>

theorem new_category_counterexample:
  "match_by_keyword ascii_lower (item_name ex_placeholder) = Some PEANUTS_CATEGORY
   \<and> contains NEW_MARKER (fst (snd (snd PEANUTS_CATEGORY)))
   \<and> map status (results (classify_products ascii_lower ex_taxonomy [ex_placeholder])) = [Skipped]
   \<and> new_categories (classify_products ascii_lower ex_taxonomy [ex_placeholder]) = {}"
proof -
  have "match_by_keyword ascii_lower (Some (SKIP_SENTINEL @ [32] @ PEANUTS)) = Some PEANUTS_CATEGORY"
    by (simp add: match_by_keyword_def lowered_name_def RULES_def ascii_lower_def PEANUTS_def
      PEANUTS_CATEGORY_def SKIP_SENTINEL_def)
  then have m: "match_by_keyword ascii_lower (item_name ex_placeholder) = Some PEANUTS_CATEGORY"
    by (simp add: ex_placeholder_def ex_fields)
  have st: "map status (results (classify_products ascii_lower ex_taxonomy [ex_placeholder])) = [Skipped]"
    by (simp add: classify_products_results ex_placeholder_result)
  have "new_categories (classify_products ascii_lower ex_taxonomy [ex_placeholder]) = {}"
    by (simp add: classify_products_new_categories)
       (simp add: classify_products_results ex_placeholder_result)
  with m st ex_peanuts_marked show ?thesis by blast
qed

section \<open>Counters\<close>

text \<open>
  What the counters hold after the loop: \<open>skipped\<close>, \<open>auto_full\<close>, \<open>new_category\<close> and
  \<open>unknown\<close> count the results of their status; \<open>auto_subgroup\<close> counts the results of
  status \<open>AutoSubgroup\<close> and those of status \<open>PartialAuto\<close> together.
\<close>

lemma classify_row_stats:
  "stats (classify_row lower taxonomy s row)
     = counted (status (row_result lower taxonomy row)) (stats s)"
  unfolding row_result_def classify_row_def
  by (simp add: init_state_def counted_def split: option.splits list.splits prod.splits)

lemma foldl_classify_row_stats:
  "stats (foldl (classify_row lower taxonomy) s rows)
     = foldl (\<lambda>c r. counted (status r) c) (stats s) (map (row_result lower taxonomy) rows)"
  by (induction rows arbitrary: s) (simp_all add: classify_row_stats)

lemma foldl_counted:
  "skipped (foldl (\<lambda>c r. counted (status r) c) c0 rs)
     = skipped c0 + length (filter (\<lambda>r. status r = Skipped) rs)"
  "auto_full (foldl (\<lambda>c r. counted (status r) c) c0 rs)
     = auto_full c0 + length (filter (\<lambda>r. status r = AutoFull) rs)"
  "new_category (foldl (\<lambda>c r. counted (status r) c) c0 rs)
     = new_category c0 + length (filter (\<lambda>r. status r = NewCategory) rs)"
  "unknown (foldl (\<lambda>c r. counted (status r) c) c0 rs)
     = unknown c0 + length (filter (\<lambda>r. status r = Unknown) rs)"
  "auto_subgroup (foldl (\<lambda>c r. counted (status r) c) c0 rs)
     = auto_subgroup c0
       + length (filter (\<lambda>r. status r = AutoSubgroup \<or> status r = PartialAuto) rs)"
  by (induction rs arbitrary: c0; simp add: counted_def split: status.splits)+

lemma classify_products_stats:
  "skipped (stats (classify_products lower taxonomy rows))
     = length (filter (\<lambda>r. status r = Skipped) (results (classify_products lower taxonomy rows)))"
  "auto_full (stats (classify_products lower taxonomy rows))
     = length (filter (\<lambda>r. status r = AutoFull) (results (classify_products lower taxonomy rows)))"
  "new_category (stats (classify_products lower taxonomy rows))
     = length (filter (\<lambda>r. status r = NewCategory) (results (classify_products lower taxonomy rows)))"
  "unknown (stats (classify_products lower taxonomy rows))
     = length (filter (\<lambda>r. status r = Unknown) (results (classify_products lower taxonomy rows)))"
  "auto_subgroup (stats (classify_products lower taxonomy rows))
     = length (filter (\<lambda>r. status r = AutoSubgroup \<or> status r = PartialAuto)
                 (results (classify_products lower taxonomy rows)))"
  unfolding classify_products_results
  by (simp_all add: classify_products_def foldl_classify_row_stats foldl_counted init_state_def)


lemma ex_dept_only_result:
  "row_result ascii_lower ex_taxonomy ex_dept_only =
       \<lparr>item_id = ''P3'', item_name = Some (ascii ''Sliced white''),
        domain = Some (ascii ''Food''), dept = Some (ascii ''Bakery''),
        group = Some (ascii '' Bread ''),
        subgroup = Some (ascii ''Loaf'' @ REVIEW_SUFFIX),
        supplier_id = ''S1'', supplier_name = ''Acme'', status = PartialAuto\<rparr>"
proof -
  obtain ts where dm: "dept_matches (dept ex_dept_only) ex_taxonomy = (ex_taxonomy ! 0) # ts"
    using find_filter_Cons [OF ex_dept_matches]
    by (auto simp: dept_matches_def ex_dept_only_def ex_fields)
  have t0: "sub_name (ex_taxonomy ! 0) = Some (ascii ''Loaf'')"
    "grp_name (ex_taxonomy ! 0) = Some (ascii '' Bread '')"
    "domain_name (ex_taxonomy ! 0) = Some (ascii ''Food'')"
    by (simp_all add: ex_taxonomy_def)
  have "row_result ascii_lower ex_taxonomy ex_dept_only =
     \<lparr>item_id = item_id ex_dept_only, item_name = item_name ex_dept_only,
      domain = or_else (domain ex_dept_only) (domain_name (ex_taxonomy ! 0)),
      dept = dept ex_dept_only, group = grp_name (ex_taxonomy ! 0),
      subgroup = Some (or_empty (sub_name (ex_taxonomy ! 0)) @ REVIEW_SUFFIX),
      supplier_id = supplier_id ex_dept_only, supplier_name = supplier_name ex_dept_only,
      status = PartialAuto\<rparr>"
    by (rule row_result_partial_auto [OF _ _ _ _ dm])
       (simp_all add: ex_dept_only_def ex_fields ex_placeholder_names ex_truthy ex_match_sliced)
  then show ?thesis
    by (simp add: t0 ex_dept_only_def ex_fields or_else_def or_empty_def ex_truthy)
qed

text \<open>
  Claim C2 says that there is a counter for each of the six statuses, each equal to the
  number of results of that status, and that \<open>PartialAuto\<close> results are counted under
  \<open>PartialAuto\<close>. The source keeps five counters and case 4 of the loop, which writes
  the status \<open>partial_auto\<close>, increments \<open>auto_subgroup\<close>: on a taxonomy with the
  department "Bakery" and one product of that department without a group, the only
  result is \<open>PartialAuto\<close> and the counters read \<open>auto_subgroup = 1\<close>, although no result
  has status \<open>AutoSubgroup\<close>.
\<close>

theorem partial_auto_counted_as_auto_subgroup:
  "map status (results (classify_products ascii_lower ex_taxonomy [ex_dept_only])) = [PartialAuto]
   \<and> stats (classify_products ascii_lower ex_taxonomy [ex_dept_only])
       = \<lparr>auto_full = 0, auto_subgroup = 1, new_category = 0, skipped = 0, unknown = 0\<rparr>"
proof -
  have "stats (classify_products ascii_lower ex_taxonomy [ex_dept_only])
       = counted (status (row_result ascii_lower ex_taxonomy ex_dept_only))
           (stats (init_state :: string state))"
    by (simp add: classify_products_def classify_row_stats)
  then show ?thesis
    by (simp add: classify_products_results ex_dept_only_result counted_def init_state_def)
qed

section \<open>Taxonomy lookups\<close>

lemma ex_lowercase_dept_result:
  "status (row_result ascii_lower ex_taxonomy ex_lowercase_dept) = Unknown"
proof -
  have nf: "find_subgroup ascii_lower (Some (ascii ''bakery'')) (Some (ascii ''Bread''))
          (Some (ascii ''Sliced white'')) ex_taxonomy = None"
    by (simp add: find_subgroup_def subgroup_matches_def ex_taxonomy_def text_ops)
  have "row_result ascii_lower ex_taxonomy ex_lowercase_dept =
     \<lparr>item_id = item_id ex_lowercase_dept, item_name = item_name ex_lowercase_dept,
      domain = or_else (domain ex_lowercase_dept) (Some UNKNOWN_DOMAIN),
      dept = or_else (dept ex_lowercase_dept) (Some NEEDS_REVIEW),
      group = or_else (group ex_lowercase_dept) (Some NEEDS_REVIEW),
      subgroup = Some MANUAL_REVIEW,
      supplier_id = supplier_id ex_lowercase_dept, supplier_name = supplier_name ex_lowercase_dept,
      status = Unknown\<rparr>"
    by (rule row_result_unknown)
       (simp_all add: ex_lowercase_dept_def ex_fields ex_placeholder_names ex_truthy
          ex_match_sliced nf)
  then show ?thesis by simp
qed

text \<open>
  Claim C3 says that the lookups of the classification ignore letter case and
  surrounding whitespace. \<open>find_subgroup\<close> and case 4 compare the taxonomy's trimmed names
  with the product's department and group by \<open>==\<close>: on a taxonomy with department
  "Bakery" and group " Bread ", the product with department "Bakery" and group
  "Bread" resolves to "Loaf", while "bakery" or "Bakery " finds nothing and the
  product ends \<open>Unknown\<close>. The tables of \<open>build_lookup\<close>, which the classification never
  consults, do find the entry under the lower-cased keys.
\<close>

theorem lookup_is_case_sensitive:
  "find_subgroup ascii_lower (Some (ascii ''Bakery'')) (Some (ascii ''Bread''))
      (Some (ascii ''Sliced white'')) ex_taxonomy = Some (ascii ''Loaf'')
   \<and> find_subgroup ascii_lower (Some (ascii ''bakery'')) (Some (ascii ''Bread''))
      (Some (ascii ''Sliced white'')) ex_taxonomy = None
   \<and> find_subgroup ascii_lower (Some (ascii ''Bakery '')) (Some (ascii ''Bread''))
      (Some (ascii ''Sliced white'')) ex_taxonomy = None
   \<and> dept_matches (Some (ascii ''Bakery'')) ex_taxonomy = [ex_taxonomy ! 0]
   \<and> dept_matches (Some (ascii ''bakery'')) ex_taxonomy = []
   \<and> map status (results (classify_products ascii_lower ex_taxonomy
                            [ex_resolved, ex_lowercase_dept])) = [AutoSubgroup, Unknown]
   \<and> fst (build_lookup ascii_lower ex_taxonomy)
        (ascii_lower (ascii ''bakery''), ascii_lower (ascii ''Bread'')) = [ex_taxonomy ! 0]
   \<and> snd (build_lookup ascii_lower ex_taxonomy) (ascii_lower (ascii ''bakery'')) = [ex_taxonomy ! 0]"
proof -
  have a: "find_subgroup ascii_lower (Some (ascii ''bakery'')) (Some (ascii ''Bread''))
      (Some (ascii ''Sliced white'')) ex_taxonomy = None"
    "find_subgroup ascii_lower (Some (ascii ''Bakery '')) (Some (ascii ''Bread''))
      (Some (ascii ''Sliced white'')) ex_taxonomy = None"
    by (simp_all add: find_subgroup_def subgroup_matches_def ex_taxonomy_def text_ops)
  have b: "dept_matches (Some (ascii ''Bakery'')) ex_taxonomy = [ex_taxonomy ! 0]"
    "dept_matches (Some (ascii ''bakery'')) ex_taxonomy = []"
    by (simp_all add: dept_matches_def ex_taxonomy_def text_ops)
  have c: "map status (results (classify_products ascii_lower ex_taxonomy
                            [ex_resolved, ex_lowercase_dept])) = [AutoSubgroup, Unknown]"
    by (simp add: classify_products_results ex_resolved_result ex_lowercase_dept_result)
  have d: "fst (build_lookup ascii_lower ex_taxonomy)
        (ascii_lower (ascii ''bakery''), ascii_lower (ascii ''Bread'')) = [ex_taxonomy ! 0]"
    "snd (build_lookup ascii_lower ex_taxonomy) (ascii_lower (ascii ''bakery'')) = [ex_taxonomy ! 0]"
    by (simp_all add: build_lookup_def ex_taxonomy_def text_ops Let_def)
  from a b c d ex_find_loaf show ?thesis by blast
qed

end
